theory Spec2Isabelle
  imports Main "HOL-Library.AList" "HOL-Library.List_Lexorder" "HOL-Library.Char_ord"
begin

section \<open>Python values\<close>

text \<open>
  The converter is dynamically typed: a rule, an option value, a source and a destination
  are all plain Python objects.  They are modelled by one datatype of values.  Objects are
  modelled by value: a dictionary is its list of items in insertion order, an instance is
  its class and its attributes.  Mutation is modelled by returning the updated value, so
  sharing between two references to one object is not represented.
\<close>

datatype pycls =
    CObject | CNoneType | CBool | CInt | CStr | CList | CTuple | CDict
  | CFunction | CType | CSentry
  | CNumber
  | CUser nat

datatype pyval =
    VNone
  | VSentry
  | VBool bool
  | VInt int
  | VStr string
  | VList "pyval list"
  | VTuple "pyval list"
  | VDict "(string \<times> pyval) list"
  | VFun nat
  | VCls pycls
  | VObj nat "(string \<times> pyval) list"

type_synonym pydict = "(string \<times> pyval) list"

text \<open>\<open>NOS = '--Not On Source--'\<close>; the source compares it by identity in the normalizer
  and by equality in the resolver, both are equality of values here.\<close>

definition NOS :: pyval where
  "NOS = VStr ''--Not On Source--''"

fun type_of :: "pyval \<Rightarrow> pycls" where
  "type_of VNone = CNoneType"
| "type_of VSentry = CSentry"
| "type_of (VBool b) = CBool"
| "type_of (VInt i) = CInt"
| "type_of (VStr s) = CStr"
| "type_of (VList xs) = CList"
| "type_of (VTuple xs) = CTuple"
| "type_of (VDict d) = CDict"
| "type_of (VFun f) = CFunction"
| "type_of (VCls c) = CType"
| "type_of (VObj n attrs) = CUser n"

text \<open>\<open>isinstance(v, str)\<close>, \<open>isinstance(v, Callable)\<close>, \<open>isinstance(v, Number)\<close>,
  \<open>isinstance(v, Iterable)\<close>, \<open>isinstance(v, dict)\<close> and Python's truth value.\<close>

fun is_str :: "pyval \<Rightarrow> bool" where
  "is_str (VStr s) = True"
| "is_str v = False"

fun is_callable :: "pyval \<Rightarrow> bool" where
  "is_callable (VFun f) = True"
| "is_callable (VCls c) = True"
| "is_callable v = False"

fun is_number :: "pyval \<Rightarrow> bool" where
  "is_number (VBool b) = True"
| "is_number (VInt i) = True"
| "is_number v = False"

fun is_iterable :: "pyval \<Rightarrow> bool" where
  "is_iterable (VStr s) = True"
| "is_iterable (VList xs) = True"
| "is_iterable (VTuple xs) = True"
| "is_iterable (VDict d) = True"
| "is_iterable v = False"

fun is_dict :: "pyval \<Rightarrow> bool" where
  "is_dict (VDict d) = True"
| "is_dict v = False"

fun truthy :: "pyval \<Rightarrow> bool" where
  "truthy VNone = False"
| "truthy (VBool b) = b"
| "truthy (VInt i) = (i \<noteq> 0)"
| "truthy (VStr s) = (s \<noteq> [])"
| "truthy (VList xs) = (xs \<noteq> [])"
| "truthy (VTuple xs) = (xs \<noteq> [])"
| "truthy (VDict d) = (d \<noteq> [])"
| "truthy v = True"

text \<open>\<open>d.get(k, default)\<close>, \<open>d[k] = v\<close> (an existing key keeps its place, a new one goes
  last) and \<open>{**a, **b}\<close>.\<close>

definition opt_get :: "pydict \<Rightarrow> string \<Rightarrow> pyval \<Rightarrow> pyval" where
  "opt_get d k dflt = (case map_of d k of None \<Rightarrow> dflt | Some v \<Rightarrow> v)"

definition dict_set :: "pydict \<Rightarrow> string \<Rightarrow> pyval \<Rightarrow> pydict" where
  "dict_set d k v = AList.update k v d"

definition dict_merge :: "pydict \<Rightarrow> pydict \<Rightarrow> pydict" where
  "dict_merge a b = fold (\<lambda>kv d. dict_set d (fst kv) (snd kv)) b a"

section \<open>Errors and state\<close>

text \<open>The messages of the \<open>TypeError\<close>s the converter raises itself, with the values they
  name; \<open>PyTypeError\<close> stands for a \<open>TypeError\<close> raised by the interpreter.\<close>

datatype tmsg =
    NoFromClass
  | NoToClass
  | SourceNotInstance pyval
  | CopyOnlyInstantiate
  | BadSubconverter pyval pyval
  | BadDefault pyval pyval pycls
  | BadToField pyval
  | BadFromField pyval
  | BadConverterField pyval pyval
  | BadFieldSpec pyval
  | BadSortValue
  | PyTypeError

text \<open>\<open>InvalidToClassException\<close> is a subclass of \<open>TypeError\<close> and \<open>ValueRequired\<close> of
  \<open>ValueError\<close>.  \<open>ValueRequired\<close> carries \<open>value_name\<close> and whether the message is the
  default one (not found) or the one of the failed requirement condition.  \<open>Raised\<close> is an
  exception of a user-supplied callable, \<open>RecursionError\<close> the exhausted call depth, and
  \<open>Unsupported\<close> marks a path of the source that this embedding does not cover.\<close>

datatype vr_msg = NotFound | ConditionFailed

datatype pyerr =
    TypeError tmsg
  | InvalidToClassException
  | ValueRequired pyval vr_msg
  | ValueError string
  | KeyError pyval
  | AttributeError pyval string
  | Raised nat
  | RecursionError
  | Unsupported string

text \<open>The module-level counter \<open>_COUNTER = infinite_counter()\<close> (its next value) and the
  thread-local context slot (\<open>None\<close> while the attribute is not set).\<close>

record pstate =
  counter :: nat
  ctx_slot :: "pydict option"

definition initial_state :: pstate where
  "initial_state = \<lparr>counter = 1, ctx_slot = None\<rparr>"

section \<open>Fresh destination names\<close>

text \<open>\<open>'%d' % n\<close> for a natural number.\<close>

definition digit_char :: "nat \<Rightarrow> char" where
  "digit_char d = ''0123456789'' ! d"

fun decimal :: "nat \<Rightarrow> string" where
  "decimal n = (if n < 10 then [digit_char n] else decimal (n div 10) @ [digit_char (n mod 10)])"

text \<open>\<open>_next_not_on_dest_attr\<close>: \<open>'-not-on-dest-%d' % next(_COUNTER)\<close>.\<close>

definition next_not_on_dest_attr :: "pstate \<Rightarrow> string \<times> pstate" where
  "next_not_on_dest_attr s =
     (''-not-on-dest-'' @ decimal (counter s), s\<lparr>counter := counter s + 1\<rparr>)"

section \<open>Rule normalizer\<close>

text \<open>\<open>len(field)\<close> and \<open>field[i]\<close> of an iterable rule that is not a string.  A dictionary
  has string keys here, so \<open>field[0]\<close> on it raises \<open>KeyError\<close>.\<close>

fun seq_len :: "pyval \<Rightarrow> nat" where
  "seq_len (VList xs) = length xs"
| "seq_len (VTuple xs) = length xs"
| "seq_len (VDict d) = length d"
| "seq_len (VStr s) = length s"
| "seq_len v = 0"

fun seq_items :: "pyval \<Rightarrow> pyval list option" where
  "seq_items (VList xs) = Some xs"
| "seq_items (VTuple xs) = Some xs"
| "seq_items v = None"

text \<open>
  \<open>normalize_single_copy_attr\<close>.  \<open>dflt_if_nos\<close> is
  \<open>getattr(cls, 'default_if_nos', None)\<close>.  The result is the raw triple; its third
  component is whatever the rule gave and need not be a dictionary.
\<close>

definition normalize_single_copy_attr ::
  "pyval \<Rightarrow> pyval \<Rightarrow> pstate \<Rightarrow> (pyerr + pyval \<times> pyval \<times> pyval) \<times> pstate" where
  "normalize_single_copy_attr dflt_if_nos field s =
    (if is_str field then (Inr (field, field, VDict []), s)
     else if is_callable field then
       (let (n, s') = next_not_on_dest_attr s
        in (Inr (VStr n, VStr ''self'', VDict [(''converter'', field)]), s'))
     else if is_iterable field then
       (if seq_len field = 1 then
          (case seq_items field of
             None \<Rightarrow> (Inl (KeyError (VInt 0)), s)
           | Some fs \<Rightarrow> (Inr (fs ! 0, fs ! 0, VDict []), s))
        else if seq_len field = 2 then
          (case seq_items field of
             None \<Rightarrow> (Inl (KeyError (VInt 1)), s)
           | Some fs \<Rightarrow>
              (if fs ! 1 = NOS then
                 (if dflt_if_nos \<noteq> VNone
                  then (Inr (fs ! 0, NOS, VDict [(''default'', dflt_if_nos)]), s)
                  else (Inr (fs ! 0, NOS, VDict []), s))
               else if is_str (fs ! 1) then (Inr (fs ! 0, fs ! 1, VDict []), s)
               else if is_callable (fs ! 1)
                 then (Inr (fs ! 0, fs ! 0, VDict [(''converter'', fs ! 1)]), s)
               else (Inr (fs ! 0, fs ! 0, fs ! 1), s)))
        else if seq_len field = 3 then
          (case seq_items field of
             None \<Rightarrow> (Inl (KeyError (VInt 0)), s)
           | Some fs \<Rightarrow>
              (let (field_0, s') =
                     (if truthy (fs ! 0) then (fs ! 0, s)
                      else (let (n, s1) = next_not_on_dest_attr s in (VStr n, s1)));
                   field_1 = fs ! 1;
                   field_2 = fs ! 2
               in if \<not> is_str field_0 then (Inl (TypeError (BadToField field_0)), s')
                  else if field_1 \<noteq> NOS \<and> \<not> is_str field_1
                    then (Inl (TypeError (BadFromField field_1)), s')
                  else if is_dict field_2 then (Inr (field_0, field_1, field_2), s')
                  else if field_1 = NOS
                    then (Inr (field_0, field_1, VDict [(''default'', field_2)]), s')
                  else if \<not> is_callable field_2 \<and> \<not> is_str field_2
                    then (Inl (TypeError (BadConverterField field_0 field_2)), s')
                  else (Inr (field_0, field_1, VDict [(''converter'', field_2)]), s')))
        else (Inl (TypeError (BadFieldSpec field)), s))
     else (Inl (TypeError (BadFieldSpec field)), s))"

text \<open>
  \<open>normalize_copy_attrs\<close>: each rule is normalized and its default checked before the
  next rule is looked at (the source feeds the loop from a generator).  \<open>opts.get\<close> on
  something that is not a dictionary raises \<open>AttributeError\<close>.
\<close>

definition default_allowed :: "pydict \<Rightarrow> bool" where
  "default_allowed opts =
     (let default = opt_get opts ''default'' VSentry
      in \<not> (default \<noteq> VSentry \<and>
             \<not> (is_callable default \<or> is_number default \<or> is_str default)))"

fun normalize_copy_attrs ::
  "pyval \<Rightarrow> pyval list \<Rightarrow> pstate \<Rightarrow> (pyerr + (pyval \<times> pyval \<times> pydict) list) \<times> pstate" where
  "normalize_copy_attrs dflt_if_nos [] s = (Inr [], s)"
| "normalize_copy_attrs dflt_if_nos (field # rest) s =
     (case normalize_single_copy_attr dflt_if_nos field s of
        (Inl e, s1) \<Rightarrow> (Inl e, s1)
      | (Inr (to_attr, from_attr, opts), s1) \<Rightarrow>
          (case opts of
             VDict od \<Rightarrow>
               (if \<not> default_allowed od
                then (Inl (TypeError (BadDefault to_attr from_attr
                              (type_of (opt_get od ''default'' VSentry)))), s1)
                else (case normalize_copy_attrs dflt_if_nos rest s1 of
                        (Inl e, s2) \<Rightarrow> (Inl e, s2)
                      | (Inr ts, s2) \<Rightarrow> (Inr ((to_attr, from_attr, od) # ts), s2)))
           | _ \<Rightarrow> (Inl (AttributeError opts ''get''), s1)))"

text \<open>A canonical triple written back as the Python tuple it is.\<close>

definition as_rule :: "pyval \<times> pyval \<times> pydict \<Rightarrow> pyval" where
  "as_rule t = VTuple [fst t, fst (snd t), VDict (snd (snd t))]"

section \<open>Converter classes, instances and the environment\<close>

text \<open>
  What \<open>from_class\<close> and \<open>to_class\<close> can hold: nothing, a class, \<open>Union[...]\<close> with its
  alternatives (\<open>__args__\<close>), or the bare \<open>Union\<close>.
\<close>

datatype tyspec = TAbsent | TClass pycls | TUnion "pycls list" | TUnionBare

text \<open>
  A \<open>Converter\<close> subclass: its class attributes, with \<open>converter_options\<close> and
  \<open>converter_washers\<close> already merged along the class hierarchy.  \<open>attributes\<close> are the
  further attributes that \<open>getattr(self, name, None)\<close> finds (the converter methods named by
  a string).  The hooks of the base class (\<open>default_getter\<close>, \<open>default_setter\<close>,
  \<open>instantiate\<close>, \<open>val_is_collection\<close>, ...) are the ones modelled.
\<close>

record convclass =
  from_class :: tyspec
  to_class :: tyspec
  conversions :: "pyval list"
  converter_additional_attrs :: pydict
  default_if_nos :: pyval
  convert_nones_to_blanks :: bool
  include_nones :: bool
  include_empty_strings :: bool
  pass_attrs_to_init :: bool
  merge_all :: bool
  copy_only :: bool
  converter_washers :: "(pycls \<times> pyval) list"
  build_context :: "pyval option"
  post_convert :: "pyval option"
  attributes :: pydict

text \<open>
  What the converter takes from outside this module:
  \<^item> \<open>pyget obj path default\<close> is \<open>pydash.get\<close>;
  \<^item> \<open>call f src ctx args kwargs\<close> is the call of the callable \<open>f\<close> with positional and
    keyword arguments; a converter method may read \<open>self.source\<close> and \<open>self.context\<close>, so
    both are given;
  \<^item> \<open>parameters f\<close> is \<open>list(signature(f).parameters)\<close>;
  \<^item> \<open>user_sub n m\<close> is \<open>issubclass\<close> between two user classes;
  \<^item> \<open>converters n\<close> tells whether the user class \<open>n\<close> is a \<open>Converter\<close> subclass;
  \<^item> \<open>named_converters\<close> is the registry of the same name.
\<close>

record env =
  pyget :: "pyval \<Rightarrow> pyval \<Rightarrow> pyval \<Rightarrow> pyval"
  call :: "pyval \<Rightarrow> pyval \<Rightarrow> pydict \<Rightarrow> pyval list \<Rightarrow> pydict \<Rightarrow> pyerr + pyval"
  parameters :: "pyval \<Rightarrow> string list"
  user_sub :: "nat \<Rightarrow> nat \<Rightarrow> bool"
  converters :: "nat \<Rightarrow> convclass option"
  named_converters :: "string \<Rightarrow> pyval option"

text \<open>A converter instance after \<open>__init__\<close>.\<close>

record converter =
  cls :: convclass
  source :: pyval
  dest :: pyval
  extra_attrs :: pydict
  extra :: pyval
  own_context :: pyval
  creating :: bool
  normalized_attrs :: "(pyval \<times> pyval \<times> pydict) list"

text \<open>Calling something that is not callable raises \<open>TypeError\<close>.\<close>

definition py_call ::
  "env \<Rightarrow> pyval \<Rightarrow> pyval \<Rightarrow> pydict \<Rightarrow> pyval list \<Rightarrow> pydict \<Rightarrow> pyerr + pyval" where
  "py_call E f src ctx args kwargs =
     (if is_callable f then call E f src ctx args kwargs else Inl (TypeError PyTypeError))"

text \<open>\<open>isinstance\<close>: \<open>bool\<close> is a subclass of \<open>int\<close>, both are \<open>Number\<close>s, everything is an
  \<open>object\<close>.\<close>

fun builtin_sub :: "pycls \<Rightarrow> pycls \<Rightarrow> bool" where
  "builtin_sub c CObject = True"
| "builtin_sub CBool CInt = True"
| "builtin_sub CBool CNumber = True"
| "builtin_sub CInt CNumber = True"
| "builtin_sub c d = (c = d)"

definition isinstance :: "env \<Rightarrow> pyval \<Rightarrow> pycls \<Rightarrow> bool" where
  "isinstance E v c =
     (case (type_of v, c) of
        (CUser n, CUser m) \<Rightarrow> n = m \<or> user_sub E n m
      | (t, d) \<Rightarrow> builtin_sub t d)"

text \<open>\<open>is_union_type\<close> and \<open>is_one_of_union_types\<close> of \<open>_utils\<close>; the bare \<open>Union\<close> has no
  \<open>__args__\<close>.\<close>

fun is_union_type :: "tyspec \<Rightarrow> bool" where
  "is_union_type (TUnion alts) = True"
| "is_union_type TUnionBare = True"
| "is_union_type tp = False"

definition is_one_of_union_types :: "env \<Rightarrow> pyval \<Rightarrow> pycls list \<Rightarrow> bool" where
  "is_one_of_union_types E src alts =
     list_ex (\<lambda>ut. type_of src = ut \<or> isinstance E src ut) alts"

text \<open>\<open>_is_valid_source_type\<close>.\<close>

definition is_valid_source_type :: "env \<Rightarrow> convclass \<Rightarrow> pyval \<Rightarrow> pyerr + bool" where
  "is_valid_source_type E cc src =
     (if is_union_type (from_class cc) then
        (case from_class cc of
           TUnion alts \<Rightarrow> Inr (is_one_of_union_types E src alts)
         | _ \<Rightarrow> Inl (AttributeError (VCls CObject) ''__args__''))
      else
        (case from_class cc of
           TClass c \<Rightarrow> Inr (isinstance E src c)
         | _ \<Rightarrow> Inl (TypeError PyTypeError)))"

text \<open>
  \<open>dynamic_copy_attrs\<close>.  An extra attribute is stashed in the options of the first rule
  with that destination, or appended as a rule of its own.
\<close>

fun stash_override ::
  "(pyval \<times> pyval \<times> pydict) list \<Rightarrow> string \<Rightarrow> pyval \<Rightarrow> (pyval \<times> pyval \<times> pydict) list" where
  "stash_override [] k v = [(VStr k, NOS, [(''_kwarg_override'', v)])]"
| "stash_override ((t, f, opts) # rest) k v =
     (if t = VStr k then (t, f, dict_set opts ''_kwarg_override'' v) # rest
      else (t, f, opts) # stash_override rest k v)"

definition dynamic_copy_attrs ::
  "convclass \<Rightarrow> pydict \<Rightarrow> pstate \<Rightarrow> (pyerr + pyval list) \<times> pstate" where
  "dynamic_copy_attrs cc extras s =
     (let additional_attrs =
            map (\<lambda>kv. VTuple [VStr (fst kv), NOS, VDict [(''default'', snd kv)]])
              (converter_additional_attrs cc)
      in case normalize_copy_attrs (default_if_nos cc) (conversions cc) s of
           (Inl e, s1) \<Rightarrow> (Inl e, s1)
         | (Inr normalized, s1) \<Rightarrow>
             (Inr (map as_rule
                     (fold (\<lambda>kv attrs. stash_override attrs (fst kv) (snd kv)) extras normalized)
                   @ additional_attrs), s1))"

text \<open>\<open>_normalized_dynamic_copy_attrs\<close>: the result is normalized once more.\<close>

definition normalized_dynamic_copy_attrs ::
  "convclass \<Rightarrow> pydict \<Rightarrow> pstate \<Rightarrow> (pyerr + (pyval \<times> pyval \<times> pydict) list) \<times> pstate" where
  "normalized_dynamic_copy_attrs cc extras s =
     (case dynamic_copy_attrs cc extras s of
        (Inl e, s1) \<Rightarrow> (Inl e, s1)
      | (Inr attrs, s1) \<Rightarrow> normalize_copy_attrs (default_if_nos cc) attrs s1)"

text \<open>
  \<open>Converter.__init__(self, source, *, context=None, dest=None, _extra=None,
  **extra_attrs)\<close>.  \<open>src_arg\<close>, \<open>context_arg\<close>, \<open>dest_arg\<close> and \<open>extra_arg\<close> are \<open>VNone\<close> when
  not given.
\<close>

definition init ::
  "env \<Rightarrow> convclass \<Rightarrow> pyval \<Rightarrow> pyval \<Rightarrow> pyval \<Rightarrow> pyval \<Rightarrow> pydict \<Rightarrow> pstate
     \<Rightarrow> (pyerr + converter) \<times> pstate" where
  "init E cc src_arg context_arg dest_arg extra_arg extras s =
     (if from_class cc = TAbsent then (Inl (TypeError NoFromClass), s)
      else if to_class cc = TAbsent then (Inl (TypeError NoToClass), s)
      else if is_union_type (to_class cc) then (Inl InvalidToClassException, s)
      else
        (case (if src_arg \<noteq> VNone then is_valid_source_type E cc src_arg else Inr True) of
           Inl e \<Rightarrow> (Inl e, s)
         | Inr False \<Rightarrow> (Inl (TypeError (SourceNotInstance src_arg)), s)
         | Inr True \<Rightarrow>
             (case normalized_dynamic_copy_attrs cc extras s of
                (Inl e, s1) \<Rightarrow> (Inl e, s1)
              | (Inr attrs, s1) \<Rightarrow>
                  (Inr \<lparr>cls = cc, source = src_arg, dest = dest_arg, extra_attrs = extras,
                        extra = (if truthy extra_arg then extra_arg else VDict []),
                        own_context = context_arg, creating = (dest_arg = VNone),
                        normalized_attrs = attrs\<rparr>, s1))))"

section \<open>Value resolver\<close>

text \<open>The \<open>context\<close> property: \<open>getattr(Converter._converter_context_local, 'context', {})\<close>.\<close>

definition ctx_get :: "pstate \<Rightarrow> pydict" where
  "ctx_get s = (case ctx_slot s of None \<Rightarrow> [] | Some c \<Rightarrow> c)"

definition val_is_collection :: "pyval \<Rightarrow> bool" where
  "val_is_collection v = (is_iterable v \<and> \<not> is_str v \<and> \<not> is_dict v)"

definition pluralize_val :: "pyval \<Rightarrow> pyval" where
  "pluralize_val v = VList [v]"

definition default_getter :: "env \<Rightarrow> converter \<Rightarrow> pyval \<Rightarrow> pyval \<Rightarrow> pyval \<Rightarrow> pyval" where
  "default_getter E self src attr dflt =
     (if attr = VStr ''self'' then source self else pyget E src attr dflt)"

text \<open>
  \<open>_get_value(self, inst, from_attr, opts)\<close>; \<open>ctx\<close> is \<open>self.context\<close>.  \<open>raw_value\<close> is
  the part of it between the override test and the default block: the value taken from
  the instance, the custom getter or \<open>from_getter\<close>, and from the context when that gave
  \<open>_SENTRY\<close>.
\<close>

definition raw_value ::
  "env \<Rightarrow> converter \<Rightarrow> pydict \<Rightarrow> pyval \<Rightarrow> pyval \<Rightarrow> pydict \<Rightarrow> pyerr + pyval" where
  "raw_value E self ctx inst from_attr opts =
     (case (if truthy (opt_get opts ''pass_instance_to_converter'' (VBool False))
              then Inr inst
            else if from_attr = NOS then Inr VSentry
            else if opt_get opts ''getter'' VSentry \<noteq> VSentry
              then py_call E (opt_get opts ''getter'' VSentry) (source self) ctx
                     [source self, from_attr, VDict opts] []
            else Inr (default_getter E self (source self) from_attr VSentry)) of
        Inl e \<Rightarrow> Inl e
      | Inr got \<Rightarrow>
          Inr (if got = VSentry then pyget E (VDict ctx) from_attr VSentry else got))"

definition get_value ::
  "env \<Rightarrow> converter \<Rightarrow> pydict \<Rightarrow> pyval \<Rightarrow> pyval \<Rightarrow> pydict \<Rightarrow> pyerr + pyval" where
  "get_value E self ctx inst from_attr opts =
     (if opt_get opts ''_kwarg_override'' VNone \<noteq> VNone
      then Inr (opt_get opts ''_kwarg_override'' VNone)
      else
        (case raw_value E self ctx inst from_attr opts of
           Inl e \<Rightarrow> Inl e
         | Inr val \<Rightarrow>
             (let default = opt_get opts ''default'' VSentry
              in if (val = VSentry \<or> val = VNone \<or> val = VStr [])
                    \<and> default = VSentry \<and> val = VSentry
                   then Inr VSentry
                 else if (val = VSentry \<or> val = VNone \<or> val = VStr []) \<and> default \<noteq> VSentry
                   then (if is_callable default
                         then py_call E default (source self) ctx [] []
                         else Inr default)
                 else if truthy (opt_get opts ''pluralize'' (VBool False))
                         \<and> \<not> val_is_collection val
                   then Inr (pluralize_val val)
                 else Inr val)))"

section \<open>Conversion pipeline\<close>

definition is_builtin_func :: "pyval \<Rightarrow> bool" where
  "is_builtin_func f = (f \<in> set [VCls CStr, VCls CDict, VCls CList, VCls CInt, VCls CBool])"

text \<open>\<open>_filter_includes_val\<close>; the caller takes the truth value of the result.\<close>

definition filter_includes_val ::
  "env \<Rightarrow> converter \<Rightarrow> pydict \<Rightarrow> pyval \<Rightarrow> pyval \<Rightarrow> pyerr + pyval" where
  "filter_includes_val E self ctx filter_fn val =
     (if is_builtin_func filter_fn then py_call E filter_fn (source self) ctx [val] []
      else if length (parameters E filter_fn) = 1
        then py_call E filter_fn (source self) ctx [val] []
      else py_call E filter_fn (source self) ctx [val, source self] [])"

fun map_result :: "('a \<Rightarrow> pyerr + 'b) \<Rightarrow> 'a list \<Rightarrow> pyerr + 'b list" where
  "map_result f [] = Inr []"
| "map_result f (x # xs) =
     (case f x of
        Inl e \<Rightarrow> Inl e
      | Inr y \<Rightarrow> (case map_result f xs of Inl e \<Rightarrow> Inl e | Inr ys \<Rightarrow> Inr (y # ys)))"

text \<open>\<open>setattr(inst, to_attr, val)\<close>, the \<open>default_setter\<close>.\<close>

fun default_setter :: "pyval \<Rightarrow> string \<Rightarrow> pyval \<Rightarrow> pyerr + pyval" where
  "default_setter (VObj n attrs) to_attr val = Inr (VObj n (dict_set attrs to_attr val))"
| "default_setter (VFun f) to_attr val = Inl (Unsupported ''attribute of a function'')"
| "default_setter (VCls c) to_attr val = Inl (Unsupported ''attribute of a class'')"
| "default_setter inst to_attr val = Inl (AttributeError inst to_attr)"

text \<open>\<open>to_attr.partition('.')\<close>: the parts before and after the first dot.\<close>

definition partition_dot :: "string \<Rightarrow> string \<times> string" where
  "partition_dot a =
     (takeWhile (\<lambda>c. c \<noteq> CHR ''.'') a, drop 1 (dropWhile (\<lambda>c. c \<noteq> CHR ''.'') a))"

text \<open>
  \<open>_set_value(self, inst, to_attr, opts, val)\<close>, returning the updated \<open>inst\<close>.  Without a
  custom setter a dictionary is assigned to, an iterable that is not a dictionary has the
  attribute set on each of its elements, anything else gets \<open>setattr\<close>.  A dotted path and
  a custom setter are not covered.
\<close>

definition set_value ::
  "env \<Rightarrow> converter \<Rightarrow> pyval \<Rightarrow> string \<Rightarrow> pydict \<Rightarrow> pyval \<Rightarrow> pyerr + pyval" where
  "set_value E self inst to_attr opts val =
     (if snd (partition_dot to_attr) \<noteq> [] then Inl (Unsupported ''dotted destination path'')
      else if truthy (opt_get opts ''setter'' VNone) then Inl (Unsupported ''custom setter'')
      else
        (case inst of
           VDict d \<Rightarrow> Inr (VDict (dict_set d to_attr val))
         | VList xs \<Rightarrow>
             (if truthy (pyget E inst (VStr ''set'') VNone) then default_setter inst to_attr val
              else (case map_result (\<lambda>x. default_setter x to_attr val) xs of
                      Inl e \<Rightarrow> Inl e | Inr ys \<Rightarrow> Inr (VList ys)))
         | VTuple xs \<Rightarrow>
             (if truthy (pyget E inst (VStr ''set'') VNone) then default_setter inst to_attr val
              else (case map_result (\<lambda>x. default_setter x to_attr val) xs of
                      Inl e \<Rightarrow> Inl e | Inr ys \<Rightarrow> Inr (VTuple ys)))
         | VStr str \<Rightarrow>
             (if truthy (pyget E inst (VStr ''set'') VNone) then default_setter inst to_attr val
              else (case map_result (\<lambda>c. default_setter (VStr [c]) to_attr val) str of
                      Inl e \<Rightarrow> Inl e | Inr ys \<Rightarrow> Inr inst))
         | _ \<Rightarrow> default_setter inst to_attr val))"

text \<open>
  The callable that \<open>_convert_child\<close> ends up with: \<open>identity\<close> of \<open>_utils\<close>, the wrapper
  \<open>cfunc(to_convert, dest=None, **kwargs)\<close> around a \<open>Converter\<close> subclass, or the configured
  callable itself.
\<close>

datatype cfunc = CIdentity | CConverter convclass | CCallable pyval

definition converter_class :: "env \<Rightarrow> pyval \<Rightarrow> convclass option" where
  "converter_class E v = (case v of VCls (CUser n) \<Rightarrow> converters E n | _ \<Rightarrow> None)"

definition resolve_sub_converter ::
  "env \<Rightarrow> converter \<Rightarrow> pyval \<Rightarrow> pyval \<Rightarrow> pyerr + cfunc" where
  "resolve_sub_converter E self to_attr sub_converter =
     (case (case sub_converter of
              VStr name \<Rightarrow>
                (let found = opt_get (attributes (cls self)) name VNone
                 in if is_callable found then Inr found
                    else (case named_converters E name of
                            None \<Rightarrow> Inl (KeyError (VStr name))
                          | Some c \<Rightarrow> Inr c))
            | _ \<Rightarrow> Inr sub_converter) of
        Inl e \<Rightarrow> Inl e
      | Inr sc \<Rightarrow>
          (case converter_class E sc of
             Some cc \<Rightarrow> Inr (CConverter cc)
           | None \<Rightarrow>
               (if is_callable sc then Inr (CCallable sc)
                else Inl (TypeError (BadSubconverter sc to_attr)))))"

fun wants_dest :: "env \<Rightarrow> cfunc \<Rightarrow> bool" where
  "wants_dest E CIdentity = False"
| "wants_dest E (CConverter cc) = True"
| "wants_dest E (CCallable f) =
     (if is_builtin_func f then False else ''dest'' \<in> set (parameters E f))"

fun wants_inst :: "env \<Rightarrow> cfunc \<Rightarrow> bool" where
  "wants_inst E CIdentity = False"
| "wants_inst E (CConverter cc) = False"
| "wants_inst E (CCallable f) =
     (if is_builtin_func f then False
      else ''inst'' \<in> set (parameters E f) \<and> hd (parameters E f) \<noteq> ''inst'')"

text \<open>
  A nested conversion \<open>sub_converter(to_convert, dest=dest, _extra=self._extra,
  **kwargs).convert()\<close> is a parameter of the pipeline; \<open>convert\<close> below ties the knot.
\<close>

type_synonym subconv =
  "convclass \<Rightarrow> pyval \<Rightarrow> pyval \<Rightarrow> pyval \<Rightarrow> pydict \<Rightarrow> pstate \<Rightarrow> (pyerr + pyval) \<times> pstate"

definition apply_cfunc ::
  "subconv \<Rightarrow> env \<Rightarrow> converter \<Rightarrow> cfunc \<Rightarrow> pyval \<Rightarrow> pydict \<Rightarrow> pstate
     \<Rightarrow> (pyerr + pyval) \<times> pstate" where
  "apply_cfunc sub E self cf val kwargs s =
     (case cf of
        CIdentity \<Rightarrow> (if kwargs = [] then (Inr val, s) else (Inl (TypeError PyTypeError), s))
      | CConverter cc \<Rightarrow>
          sub cc val (opt_get kwargs ''dest'' VNone) (extra self)
            (AList.delete ''dest'' kwargs) s
      | CCallable f \<Rightarrow> (py_call E f (source self) (ctx_get s) [val] kwargs, s))"

text \<open>The elements that iterating over a value yields (\<open>zip(val, sub_dest)\<close>).\<close>

fun iter_items :: "pyval \<Rightarrow> pyval list option" where
  "iter_items (VList xs) = Some xs"
| "iter_items (VTuple xs) = Some xs"
| "iter_items (VDict d) = Some (map (\<lambda>kv. VStr (fst kv)) d)"
| "iter_items (VStr s) = Some (map (\<lambda>c. VStr [c]) s)"
| "iter_items v = None"

text \<open>The list comprehension of the mapping branch: filter, convert, drop \<open>_SENTRY\<close>.\<close>

fun map_children ::
  "(pyval \<Rightarrow> pyval \<Rightarrow> pstate \<Rightarrow> (pyerr + pyval) \<times> pstate) \<Rightarrow> (pyval \<Rightarrow> pstate \<Rightarrow> pyerr + bool)
     \<Rightarrow> (pyval \<times> pyval) list \<Rightarrow> pstate \<Rightarrow> (pyerr + pyval list) \<times> pstate" where
  "map_children f keep [] s = (Inr [], s)"
| "map_children f keep (p # rest) s =
     (case keep (fst p) s of
        Inl e \<Rightarrow> (Inl e, s)
      | Inr False \<Rightarrow> map_children f keep rest s
      | Inr True \<Rightarrow>
          (case f (fst p) (snd p) s of
             (Inl e, s1) \<Rightarrow> (Inl e, s1)
           | (Inr subval, s1) \<Rightarrow>
               (case map_children f keep rest s1 of
                  (Inl e, s2) \<Rightarrow> (Inl e, s2)
                | (Inr vals, s2) \<Rightarrow>
                    (Inr (if subval = VSentry then vals else subval # vals), s2))))"

definition attr_should_be_merged :: "converter \<Rightarrow> pydict \<Rightarrow> bool" where
  "attr_should_be_merged self opts =
     truthy (opt_get opts ''merge'' (VBool (merge_all (cls self))))"

text \<open>
  \<open>_convert_child(self, to_attr, opts, val, inst)\<close>.  A \<open>reverse_attr_name\<close> that is not a
  string, or that is one of the keywords of the converter call, is not covered.
\<close>

definition convert_child ::
  "subconv \<Rightarrow> env \<Rightarrow> converter \<Rightarrow> pyval \<Rightarrow> pydict \<Rightarrow> pyval \<Rightarrow> pyval \<Rightarrow> pstate
     \<Rightarrow> (pyerr + pyval) \<times> pstate" where
  "convert_child sub E self to_attr opts val inst s =
     (let filter_fn = opt_get opts ''filter'' VSentry;
          sub_converter = opt_get opts ''converter'' VSentry;
          reverse_attr_name = opt_get opts ''reverse_attr_name'' VNone;
          should_map = (truthy (opt_get opts ''map'' (VBool True)) \<and> val_is_collection val)
      in
      case (if \<not> should_map \<and> filter_fn \<noteq> VSentry
            then filter_includes_val E self (ctx_get s) filter_fn val
            else Inr (VBool True)) of
        Inl e \<Rightarrow> (Inl e, s)
      | Inr included \<Rightarrow>
         if \<not> truthy included then (Inr VSentry, s)
         else if truthy reverse_attr_name \<and>
                 (\<not> is_str reverse_attr_name \<or>
                  reverse_attr_name \<in> set [VStr ''dest'', VStr ''inst'', VStr ''_extra'',
                                              VStr ''context''])
           then (Inl (Unsupported ''reverse_attr_name''), s)
         else if sub_converter = VSentry \<and> filter_fn = VSentry then
           (if truthy reverse_attr_name \<and> inst \<noteq> VSentry
            then (case reverse_attr_name of
                    VStr r \<Rightarrow> (set_value E self val r [] inst, s)
                  | _ \<Rightarrow> (Inl (Unsupported ''reverse_attr_name''), s))
            else (Inr val, s))
         else if val = VNone \<and> \<not> truthy (opt_get opts ''converter_wants_nones'' (VBool False))
           then (Inr VNone, s)
         else
           (case (if sub_converter = VSentry then Inr CIdentity
                  else resolve_sub_converter E self to_attr sub_converter) of
              Inl e \<Rightarrow> (Inl e, s)
            | Inr cf \<Rightarrow>
               if truthy reverse_attr_name \<and> inst = VSentry
               then (Inl (ValueError ''reverse_attr_name set on an initialization property''), s)
               else
                (let kwargs = (case reverse_attr_name of
                                 VStr r \<Rightarrow> (if r = [] then [] else [(r, inst)])
                               | _ \<Rightarrow> []);
                     sub_dest = (if attr_should_be_merged self opts
                                 then default_getter E self inst to_attr VSentry
                                 else VSentry)
                 in
                 if should_map then
                   (case (if wants_dest E cf \<and> sub_dest \<noteq> VSentry then iter_items sub_dest
                          else Some (replicate (seq_len val) VSentry)) of
                      None \<Rightarrow> (Inl (TypeError PyTypeError), s)
                    | Some dests \<Rightarrow>
                       (case map_children
                               (\<lambda>v sd. apply_cfunc sub E self cf v
                                          (kwargs @ (if sd \<noteq> VSentry then [(''dest'', sd)] else [])))
                               (\<lambda>v st. if filter_fn = VSentry then Inr True
                                        else (case filter_includes_val E self (ctx_get st) filter_fn v of
                                                Inl e \<Rightarrow> Inl e
                                              | Inr b \<Rightarrow> Inr (truthy b)))
                               (zip (case iter_items val of Some vs \<Rightarrow> vs | None \<Rightarrow> []) dests) s of
                          (Inl e, s1) \<Rightarrow> (Inl e, s1)
                        | (Inr vals, s1) \<Rightarrow> (Inr (VList vals), s1)))
                 else
                   apply_cfunc sub E self cf val
                     (kwargs
                      @ (if wants_dest E cf \<and> sub_dest \<noteq> VSentry then [(''dest'', sub_dest)] else [])
                      @ (if wants_inst E cf then [(''inst'', inst)] else [])) s)))"

text \<open>\<open>wash_result\<close>: the first washer whose type the value is an instance of.\<close>

fun wash_loop ::
  "env \<Rightarrow> converter \<Rightarrow> pydict \<Rightarrow> (pycls \<times> pyval) list \<Rightarrow> pyval \<Rightarrow> pyerr + pyval" where
  "wash_loop E self ctx [] val = Inr val"
| "wash_loop E self ctx (w # rest) val =
     (if \<not> isinstance E val (fst w) then wash_loop E self ctx rest val
      else py_call E (snd w) (source self) ctx [val] [])"

definition wash_result :: "env \<Rightarrow> converter \<Rightarrow> pydict \<Rightarrow> pyval \<Rightarrow> pyerr + pyval" where
  "wash_result E self ctx val = wash_loop E self ctx (converter_washers (cls self)) val"

text \<open>\<open>truncate_value\<close>: \<open>value[:max_len]\<close>.  Slicing a dictionary is not covered.\<close>

definition slice_to :: "'a list \<Rightarrow> int \<Rightarrow> 'a list" where
  "slice_to xs k = (if 0 \<le> k then take (nat k) xs else take (nat (int (length xs) + k)) xs)"

fun as_index :: "pyval \<Rightarrow> int option" where
  "as_index (VInt k) = Some k"
| "as_index (VBool b) = Some (if b then 1 else 0)"
| "as_index v = None"

definition truncate_value :: "pyval \<Rightarrow> pyval \<Rightarrow> pyerr + pyval" where
  "truncate_value val max_len =
     (case val of
        VDict d \<Rightarrow> Inl (Unsupported ''slice of a dictionary'')
      | VStr str \<Rightarrow> (case as_index max_len of
                      None \<Rightarrow> Inl (TypeError PyTypeError)
                    | Some k \<Rightarrow> Inr (VStr (slice_to str k)))
      | VList xs \<Rightarrow> (case as_index max_len of
                      None \<Rightarrow> Inl (TypeError PyTypeError)
                    | Some k \<Rightarrow> Inr (VList (slice_to xs k)))
      | VTuple xs \<Rightarrow> (case as_index max_len of
                       None \<Rightarrow> Inl (TypeError PyTypeError)
                     | Some k \<Rightarrow> Inr (VTuple (slice_to xs k)))
      | _ \<Rightarrow> Inl (TypeError PyTypeError))"

text \<open>
  \<open>sorted(val, key=sort_key)\<close> on keys that are all numbers or all strings (a stable
  sort); other keys are not covered.
\<close>

fun str_key :: "pyval \<Rightarrow> string option" where
  "str_key (VStr s) = Some s"
| "str_key v = None"

definition py_sorted :: "(pyval \<times> pyval) list \<Rightarrow> pyerr + pyval list" where
  "py_sorted kvs =
     (if length kvs \<le> 1 then Inr (map snd kvs)
      else
        (case those (map (\<lambda>kv. as_index (fst kv)) kvs) of
           Some ks \<Rightarrow> Inr (map snd (sort_key fst (zip ks (map snd kvs))))
         | None \<Rightarrow>
             (case those (map (\<lambda>kv. str_key (fst kv)) kvs) of
                Some ks \<Rightarrow> Inr (map snd (sort_key fst (zip ks (map snd kvs))))
              | None \<Rightarrow> Inl (Unsupported ''sort keys that are not all numbers or all strings''))))"

text \<open>The \<open>sort\<close> block at the end of \<open>_normalize_value\<close>.\<close>

definition sort_value ::
  "env \<Rightarrow> converter \<Rightarrow> pydict \<Rightarrow> pyval \<Rightarrow> pyval \<Rightarrow> pyerr + pyval" where
  "sort_value E self ctx sort_opt val =
     (if \<not> truthy sort_opt then Inr val
      else if \<not> val_is_collection val
        then Inl (ValueError ''sort is only applicable to collections'')
      else if \<not> is_callable sort_opt \<and> sort_opt \<noteq> VBool True
        then Inl (TypeError BadSortValue)
      else
        (case map_result
                (\<lambda>x. case (if is_callable sort_opt
                            then py_call E sort_opt (source self) ctx [x] []
                            else Inr x) of
                       Inl e \<Rightarrow> Inl e
                     | Inr k \<Rightarrow> Inr (k, x))
                (case iter_items val of Some xs \<Rightarrow> xs | None \<Rightarrow> []) of
           Inl e \<Rightarrow> Inl e
         | Inr kvs \<Rightarrow> (case py_sorted kvs of Inl e \<Rightarrow> Inl e | Inr xs \<Rightarrow> Inr (VList xs))))"

text \<open>The end of \<open>_normalize_value\<close>: washers unless \<open>skip_wash\<close>, then \<open>max_len\<close>, then
  \<open>sort\<close>.\<close>

definition wash_truncate_sort ::
  "env \<Rightarrow> converter \<Rightarrow> pydict \<Rightarrow> pydict \<Rightarrow> pyval \<Rightarrow> pyerr + pyval" where
  "wash_truncate_sort E self ctx opts val =
     (case (if \<not> truthy (opt_get opts ''skip_wash'' (VBool False))
            then wash_result E self ctx val else Inr val) of
        Inl e \<Rightarrow> Inl e
      | Inr washed \<Rightarrow>
         (case (if opt_get opts ''max_len'' VNone \<noteq> VNone
                then truncate_value washed (opt_get opts ''max_len'' VNone)
                else Inr washed) of
            Inl e \<Rightarrow> Inl e
          | Inr truncated \<Rightarrow>
              sort_value E self ctx (opt_get opts ''sort'' (VBool False)) truncated))"

text \<open>\<open>_normalize_value(self, to_attr, from_attr, opts, inst=_SENTRY)\<close>.\<close>

definition normalize_value ::
  "subconv \<Rightarrow> env \<Rightarrow> converter \<Rightarrow> pyval \<Rightarrow> pyval \<Rightarrow> pydict \<Rightarrow> pyval \<Rightarrow> pstate
     \<Rightarrow> (pyerr + pyval) \<times> pstate" where
  "normalize_value sub E self to_attr from_attr opts inst s =
     (case get_value E self (ctx_get s) inst from_attr opts of
        Inl e \<Rightarrow> (Inl e, s)
      | Inr val0 \<Rightarrow>
         (let value_requirement = opt_get opts ''required'' (VBool False)
          in
          if val0 = VSentry then
            (if truthy value_requirement then (Inl (ValueRequired from_attr NotFound), s)
             else (Inr VSentry, s))
          else
           (case (if is_callable value_requirement
                  then py_call E value_requirement (source self) (ctx_get s) [val0] []
                  else Inr (VBool True)) of
              Inl e \<Rightarrow> (Inl e, s)
            | Inr satisfied \<Rightarrow>
               if \<not> truthy satisfied then (Inl (ValueRequired from_attr ConditionFailed), s)
               else
                (case convert_child sub E self to_attr opts val0 inst s of
                   (Inl e, s1) \<Rightarrow> (Inl e, s1)
                 | (Inr val1, s1) \<Rightarrow>
                    if \<not> include_nones (cls self) \<and> val1 = VNone then (Inr VSentry, s1)
                    else
                     (let val2 = (if val1 = VNone \<and> convert_nones_to_blanks (cls self)
                                  then VStr [] else val1)
                      in
                      if \<not> include_empty_strings (cls self) \<and> val2 = VStr []
                        then (Inr VSentry, s1)
                      else if val2 = VSentry then (Inr VSentry, s1)
                      else (wash_truncate_sort E self (ctx_get s1) opts val2, s1))))))"

section \<open>Instance lifecycle\<close>

text \<open>\<open>'.' in attr\<close>; it raises \<open>TypeError\<close> on something that is not a container.\<close>

fun contains_dot :: "pyval \<Rightarrow> pyerr + bool" where
  "contains_dot (VStr s) = Inr (CHR ''.'' \<in> set s)"
| "contains_dot (VList xs) = Inr (VStr ''.'' \<in> set xs)"
| "contains_dot (VTuple xs) = Inr (VStr ''.'' \<in> set xs)"
| "contains_dot (VDict d) = Inr (''.'' \<in> set (map fst d))"
| "contains_dot v = Inl (TypeError PyTypeError)"

text \<open>\<open>_is_initialization_attr\<close>; the caller takes the truth value of the result.\<close>

definition is_initialization_attr :: "converter \<Rightarrow> pyval \<Rightarrow> pydict \<Rightarrow> pyerr + bool" where
  "is_initialization_attr self attr opts =
     (case contains_dot attr of
        Inl e \<Rightarrow> Inl e
      | Inr attr_is_deep \<Rightarrow>
          (let attrs_generally_are_for_init = pass_attrs_to_init (cls self);
               attr_has_a_reverse_attribute = truthy (opt_get opts ''reverse_attr_name'' VNone);
               attr_converter_wants_instance =
                 truthy (opt_get opts ''pass_instance_to_converter'' VNone);
               attr_is_merging = truthy (opt_get opts ''merge'' (VBool False))
           in Inr (truthy (opt_get opts ''initialization_attribute''
                     (VBool (attrs_generally_are_for_init
                             \<and> \<not> attr_converter_wants_instance
                             \<and> \<not> attr_is_deep
                             \<and> \<not> attr_has_a_reverse_attribute
                             \<and> \<not> attr_is_merging))))))"

text \<open>
  The ordered dictionary \<open>dct\<close> of resolved values, keyed by destination.  A destination
  that is a list or a dictionary is unhashable; one that is neither that nor a string is
  not covered.
\<close>

type_synonym params = "(string \<times> pyval \<times> pydict) list"

fun dct_insert :: "params \<Rightarrow> pyval \<Rightarrow> pyval \<times> pydict \<Rightarrow> pyerr + params" where
  "dct_insert dct (VStr k) vo = Inr (AList.update k vo dct)"
| "dct_insert dct (VList xs) vo = Inl (TypeError PyTypeError)"
| "dct_insert dct (VDict d) vo = Inl (TypeError PyTypeError)"
| "dct_insert dct to_attr vo = Inl (Unsupported ''destination that is not a string'')"

text \<open>\<open>params_for_initialization\<close> and \<open>params_for_population\<close>, each a loop over
  \<open>self._normalized_attrs\<close> that fills \<open>dct\<close>.\<close>

fun params_for_initialization_loop ::
  "subconv \<Rightarrow> env \<Rightarrow> converter \<Rightarrow> (pyval \<times> pyval \<times> pydict) list \<Rightarrow> params \<Rightarrow> pstate
     \<Rightarrow> (pyerr + params) \<times> pstate" where
  "params_for_initialization_loop sub E self [] dct s = (Inr dct, s)"
| "params_for_initialization_loop sub E self (attr # rest) dct s =
     (case is_initialization_attr self (fst attr) (snd (snd attr)) of
        Inl e \<Rightarrow> (Inl e, s)
      | Inr is_init \<Rightarrow>
          if \<not> is_init then params_for_initialization_loop sub E self rest dct s
          else
           (case normalize_value sub E self (fst attr) (fst (snd attr)) (snd (snd attr))
                   VSentry s of
              (Inl e, s1) \<Rightarrow> (Inl e, s1)
            | (Inr val, s1) \<Rightarrow>
                if val = VSentry then params_for_initialization_loop sub E self rest dct s1
                else (case dct_insert dct (fst attr) (val, snd (snd attr)) of
                        Inl e \<Rightarrow> (Inl e, s1)
                      | Inr dct' \<Rightarrow> params_for_initialization_loop sub E self rest dct' s1)))"

definition params_for_initialization ::
  "subconv \<Rightarrow> env \<Rightarrow> converter \<Rightarrow> pstate \<Rightarrow> (pyerr + params) \<times> pstate" where
  "params_for_initialization sub E self s =
     params_for_initialization_loop sub E self (normalized_attrs self) [] s"

fun params_for_population_loop ::
  "subconv \<Rightarrow> env \<Rightarrow> converter \<Rightarrow> pyval \<Rightarrow> (pyval \<times> pyval \<times> pydict) list \<Rightarrow> params \<Rightarrow> pstate
     \<Rightarrow> (pyerr + params) \<times> pstate" where
  "params_for_population_loop sub E self inst [] dct s = (Inr dct, s)"
| "params_for_population_loop sub E self inst (attr # rest) dct s =
     (case is_initialization_attr self (fst attr) (snd (snd attr)) of
        Inl e \<Rightarrow> (Inl e, s)
      | Inr is_init \<Rightarrow>
          if is_init then params_for_population_loop sub E self inst rest dct s
          else
           (case normalize_value sub E self (fst attr) (fst (snd attr)) (snd (snd attr))
                   inst s of
              (Inl e, s1) \<Rightarrow> (Inl e, s1)
            | (Inr val, s1) \<Rightarrow>
                if val = VSentry then params_for_population_loop sub E self inst rest dct s1
                else (case dct_insert dct (fst attr) (val, snd (snd attr)) of
                        Inl e \<Rightarrow> (Inl e, s1)
                      | Inr dct' \<Rightarrow> params_for_population_loop sub E self inst rest dct' s1)))"

definition params_for_population ::
  "subconv \<Rightarrow> env \<Rightarrow> converter \<Rightarrow> pyval \<Rightarrow> pstate \<Rightarrow> (pyerr + params) \<times> pstate" where
  "params_for_population sub E self inst s =
     params_for_population_loop sub E self inst (normalized_attrs self) [] s"

text \<open>\<open>instantiate\<close>: \<open>self.to_class(**attr_val_only_map)\<close>; \<open>dict(**kwargs)\<close> is the
  dictionary of the keyword arguments.\<close>

definition instantiate :: "env \<Rightarrow> converter \<Rightarrow> pydict \<Rightarrow> params \<Rightarrow> pyerr + pyval" where
  "instantiate E self ctx dct =
     (if copy_only (cls self) then Inl (TypeError CopyOnlyInstantiate)
      else
        (let attr_val_only_map = map (\<lambda>p. (fst p, fst (snd p))) dct
         in case to_class (cls self) of
              TClass c \<Rightarrow>
                (if c = CDict then Inr (VDict attr_val_only_map)
                 else py_call E (VCls c) (source self) ctx [] attr_val_only_map)
            | _ \<Rightarrow> Inl (TypeError PyTypeError)))"

text \<open>
  \<open>populate_instance(self, inst, params)\<close>, returning the updated \<open>inst\<close>.  \<open>setv\<close> is
  \<open>self._set_value\<close>, the only way the loop writes to the destination.
\<close>

fun populate_instance ::
  "(pyval \<Rightarrow> string \<Rightarrow> pydict \<Rightarrow> pyval \<Rightarrow> pyerr + pyval) \<Rightarrow> pyval \<Rightarrow> params \<Rightarrow> pyerr + pyval" where
  "populate_instance setv inst [] = Inr inst"
| "populate_instance setv inst (p # rest) =
     (if truthy (opt_get (snd (snd p)) ''merge'' (VBool False))
      then populate_instance setv inst rest
      else (case setv inst (fst p) (snd (snd p)) (fst (snd p)) of
              Inl e \<Rightarrow> Inl e
            | Inr inst' \<Rightarrow> populate_instance setv inst' rest))"

text \<open>\<open>instance_convert\<close>.\<close>

definition instance_convert ::
  "subconv \<Rightarrow> env \<Rightarrow> converter \<Rightarrow> pstate \<Rightarrow> (pyerr + pyval) \<times> pstate" where
  "instance_convert sub E self s =
     (case params_for_initialization sub E self s of
        (Inl e, s1) \<Rightarrow> (Inl e, s1)
      | (Inr init_attrs, s1) \<Rightarrow>
         (case (if dest self \<noteq> VNone
                then populate_instance (set_value E self) (dest self) init_attrs
                else instantiate E self (ctx_get s1) init_attrs) of
            Inl e \<Rightarrow> (Inl e, s1)
          | Inr inst \<Rightarrow>
             if dest self = VNone \<and> (inst = VNone \<or> inst = VSentry) then (Inr inst, s1)
             else
              (case params_for_population sub E self inst s1 of
                 (Inl e, s2) \<Rightarrow> (Inl e, s2)
               | (Inr pop_parms, s2) \<Rightarrow>
                  (case populate_instance (set_value E self) inst pop_parms of
                     Inl e \<Rightarrow> (Inl e, s2)
                   | Inr inst' \<Rightarrow>
                      (case post_convert (cls self) of
                         None \<Rightarrow> (Inr inst', s2)
                       | Some pc \<Rightarrow>
                           (py_call E pc (source self) (ctx_get s2) [inst'] [], s2))))))"

section \<open>Context manager and \<open>convert\<close>\<close>

text \<open>A value spread with \<open>**\<close> must be a mapping.\<close>

fun as_mapping :: "pyval \<Rightarrow> pydict option" where
  "as_mapping (VDict d) = Some d"
| "as_mapping v = None"

text \<open>
  \<open>_updated_context\<close> around a body: the built context, the caller-supplied one and the
  old one are read, the merge \<open>{**old_context, **new_built_context, **new_context}\<close> is
  installed, the body runs, and \<open>finally\<close> puts \<open>old_context\<close> back.
\<close>

definition updated_context ::
  "env \<Rightarrow> converter \<Rightarrow> (pstate \<Rightarrow> (pyerr + pyval) \<times> pstate) \<Rightarrow> pstate
     \<Rightarrow> (pyerr + pyval) \<times> pstate" where
  "updated_context E self body s =
     (case (case build_context (cls self) of
              None \<Rightarrow> Inr (VDict [])
            | Some bc \<Rightarrow> py_call E bc (source self) (ctx_get s) [] []) of
        Inl e \<Rightarrow> (Inl e, s)
      | Inr new_built_context \<Rightarrow>
         (let new_context = (if truthy (own_context self) then own_context self else VDict []);
              old_context = ctx_get s
          in case (as_mapping new_built_context, as_mapping new_context) of
               (Some built, Some new) \<Rightarrow>
                 (let r = body (s\<lparr>ctx_slot := Some (dict_merge (dict_merge old_context built) new)\<rparr>)
                  in (fst r, (snd r)\<lparr>ctx_slot := Some old_context\<rparr>))
             | _ \<Rightarrow> (Inl (TypeError PyTypeError), s)))"

text \<open>
  \<open>convert\<close> on an instance: \<open>with self._updated_context(): return
  self.instance_convert()\<close>.  The first argument bounds the depth of nested conversions;
  when it is used up the call fails with \<open>RecursionError\<close>.
\<close>

fun convert :: "nat \<Rightarrow> env \<Rightarrow> converter \<Rightarrow> pstate \<Rightarrow> (pyerr + pyval) \<times> pstate" where
  "convert 0 E self s = (Inl RecursionError, s)"
| "convert (Suc depth) E self s =
     updated_context E self
       (instance_convert
          (\<lambda>cc to_convert dest_arg extra_arg kwargs st.
             case init E cc to_convert VNone dest_arg extra_arg kwargs st of
               (Inl e, st1) \<Rightarrow> (Inl e, st1)
             | (Inr child, st1) \<Rightarrow> convert depth E child st1)
          E self) s"

text \<open>\<open>convert\<close> on the class: \<open>cls(*args, **kwargs).convert()\<close>.\<close>

definition convert_class ::
  "nat \<Rightarrow> env \<Rightarrow> convclass \<Rightarrow> pyval \<Rightarrow> pyval \<Rightarrow> pyval \<Rightarrow> pydict \<Rightarrow> pstate
     \<Rightarrow> (pyerr + pyval) \<times> pstate" where
  "convert_class depth E cc src_arg context_arg dest_arg extras s =
     (case init E cc src_arg context_arg dest_arg VNone extras s of
        (Inl e, s1) \<Rightarrow> (Inl e, s1)
      | (Inr self, s1) \<Rightarrow> convert depth E self s1)"

text \<open>The nested conversion that \<open>convert\<close> hands to the pipeline, under a name.\<close>

definition nested :: "nat \<Rightarrow> env \<Rightarrow> subconv" where
  "nested depth E cc to_convert dest_arg extra_arg kwargs st =
     (case init E cc to_convert VNone dest_arg extra_arg kwargs st of
        (Inl e, st1) \<Rightarrow> (Inl e, st1)
      | (Inr child, st1) \<Rightarrow> convert depth E child st1)"

section \<open>Example converters\<close>

text \<open>
  A lookup that agrees with \<open>pydash.get\<close> on a dictionary or an object and a path that is
  a plain key (a string without dots or brackets); it is used for the concrete
  conversions below, which need no more.
\<close>

definition flat_get :: "pyval \<Rightarrow> pyval \<Rightarrow> pyval \<Rightarrow> pyval" where
  "flat_get obj path dflt =
     (case (obj, path) of
        (VDict d, VStr k) \<Rightarrow> opt_get d k dflt
      | (VObj n attrs, VStr k) \<Rightarrow> opt_get attrs k dflt
      | _ \<Rightarrow> dflt)"

text \<open>An environment with no callables, no user classes and an empty registry.\<close>

definition env0 :: env where
  "env0 = \<lparr>pyget = flat_get,
           call = (\<lambda>f src ctx args kwargs. Inl (Raised 0)),
           parameters = (\<lambda>f. []),
           user_sub = (\<lambda>n m. False),
           converters = (\<lambda>n. None),
           named_converters = (\<lambda>name. None)\<rparr>"

text \<open>\<open>DictConverter\<close> with the default \<open>converter_options\<close> and no rules.\<close>

definition DictConverter :: convclass where
  "DictConverter =
     \<lparr>from_class = TClass CDict, to_class = TClass CDict, conversions = [],
      converter_additional_attrs = [], default_if_nos = VNone,
      convert_nones_to_blanks = False, include_nones = True, include_empty_strings = True,
      pass_attrs_to_init = False, merge_all = False, copy_only = False,
      converter_washers = [], build_context = None, post_convert = None, attributes = []\<rparr>"

text \<open>A converter instance of \<open>DictConverter\<close> on the source \<open>{}\<close>, for statements about
  single methods.\<close>

definition dict_converter_instance :: "pyval \<Rightarrow> converter" where
  "dict_converter_instance src =
     \<lparr>cls = DictConverter, source = src, dest = VNone, extra_attrs = [], extra = VDict [],
      own_context = VNone, creating = True, normalized_attrs = []\<rparr>"


text \<open>\<open>rules=[('x', 'y', {'required': True, 'default': 'fallback'})]\<close>.\<close>

definition required_default_converter :: convclass where
  "required_default_converter =
     DictConverter\<lparr>conversions :=
       [VTuple [VStr ''x'', VStr ''y'',
                VDict [(''required'', VBool True), (''default'', VStr ''fallback'')]]]\<rparr>"

text \<open>\<open>rules=[('x', NOS, 'fallback')]\<close> and \<open>rules=[('x', 'y', {'default': 'fallback'})]\<close>.\<close>

definition nos_default_converter :: convclass where
  "nos_default_converter =
     DictConverter\<lparr>conversions := [VTuple [VStr ''x'', NOS, VStr ''fallback'']]\<rparr>"

definition default_converter :: convclass where
  "default_converter =
     DictConverter\<lparr>conversions :=
       [VTuple [VStr ''x'', VStr ''y'', VDict [(''default'', VStr ''fallback'')]]]\<rparr>"

text \<open>\<open>rules=['a']\<close>.\<close>

definition plain_converter :: convclass where
  "plain_converter = DictConverter\<lparr>conversions := [VStr ''a'']\<rparr>"

text \<open>\<open>rules=[('y', {'required': True})]\<close>.\<close>

definition required_converter :: convclass where
  "required_converter =
     DictConverter\<lparr>conversions := [VTuple [VStr ''y'', VDict [(''required'', VBool True)]]]\<rparr>"

text \<open>\<open>rules=['a']\<close> with \<open>converter_options = {'merge_all': True}\<close>, and
  \<open>rules=[('a', {'merge': True})]\<close>.\<close>

definition merge_all_converter :: convclass where
  "merge_all_converter = DictConverter\<lparr>conversions := [VStr ''a''], merge_all := True\<rparr>"

definition merge_flag_converter :: convclass where
  "merge_flag_converter =
     DictConverter\<lparr>conversions := [VTuple [VStr ''a'', VDict [(''merge'', VBool True)]]]\<rparr>"

text \<open>\<open>from_class = Union[dict, MyObject]\<close> (the user class 1), and
  \<open>to_class = Union[dict, object]\<close>.\<close>

definition union_source_converter :: convclass where
  "union_source_converter =
     DictConverter\<lparr>from_class := TUnion [CDict, CUser 1], conversions := [VStr ''a'']\<rparr>"

definition union_dest_converter :: convclass where
  "union_dest_converter =
     DictConverter\<lparr>to_class := TUnion [CDict, CObject], conversions := [VStr ''a'']\<rparr>"


text \<open>
  A nested conversion: the child has \<open>rules=['k']\<close> and
  \<open>build_context = lambda self: {'k': 2}\<close> (the function 1), the parent has
  \<open>rules=[('subs', Child)]\<close>; \<open>Child\<close> is the user class 1.
\<close>

definition child_converter :: convclass where
  "child_converter = DictConverter\<lparr>conversions := [VStr ''k''], build_context := Some (VFun 1)\<rparr>"

definition parent_converter :: convclass where
  "parent_converter =
     DictConverter\<lparr>conversions := [VTuple [VStr ''subs'', VCls (CUser 1)]]\<rparr>"

definition env1 :: env where
  "env1 = env0\<lparr>call := (\<lambda>f src ctx args kwargs.
                          if f = VFun 1 then Inr (VDict [(''k'', VInt 2)]) else Inl (Raised 0)),
               converters := (\<lambda>n. if n = 1 then Some child_converter else None)\<rparr>"

text \<open>\<open>rules=[('a', {'getter': g})]\<close>, with the function 1 of \<open>env1\<close> as \<open>g\<close>.\<close>

definition getter_converter :: convclass where
  "getter_converter =
     DictConverter\<lparr>conversions := [VTuple [VStr ''a'', VDict [(''getter'', VFun 1)]]]\<rparr>"

section \<open>The reference table of the rule normalizer\<close>
























text \<open>A canonical triple: a non-empty string as destination, a string as source path
  (\<open>NOS\<close> is one), and options whose default, if any, is allowed.\<close>

definition canonical :: "pyval \<times> pyval \<times> pydict \<Rightarrow> bool" where
  "canonical t =
     (is_str (fst t) \<and> truthy (fst t) \<and> is_str (fst (snd t)) \<and> default_allowed (snd (snd t)))"


section \<open>Facts about dictionaries\<close>

lemma opt_get_Nil: "opt_get [] k d = d"
  by (simp add: opt_get_def)

lemma opt_get_Cons: "opt_get ((k', v) # rest) k d = (if k' = k then v else opt_get rest k d)"
  by (simp add: opt_get_def)

lemma opt_get_delete_other: "k \<noteq> k' \<Longrightarrow> opt_get (AList.delete k' d) k dflt = opt_get d k dflt"
  by (simp add: opt_get_def delete_conv')

lemma opt_get_delete_same: "opt_get (AList.delete k d) k dflt = dflt"
  by (simp add: opt_get_def delete_conv')

section \<open>The value resolver: overrides, defaults, requiredness\<close>

lemma get_value_override:
  "map_of opts ''_kwarg_override'' = Some v \<Longrightarrow> v \<noteq> VNone \<Longrightarrow>
   get_value E self ctx inst from_attr opts = Inr v"
  by (simp add: get_value_def opt_get_def)

lemma get_value_default:
  assumes "opt_get opts ''_kwarg_override'' VNone = VNone"
    and "raw_value E self ctx inst from_attr opts = Inr val"
    and "val = VSentry \<or> val = VNone \<or> val = VStr []"
    and "map_of opts ''default'' = Some d"
    and "is_callable d \<or> is_number d \<or> is_str d"
  shows "get_value E self ctx inst from_attr opts =
           (if is_callable d then py_call E d (source self) ctx [] [] else Inr d)"
proof -
  from assms(5) have "d \<noteq> VSentry" by auto
  with assms show ?thesis
    by (auto simp: get_value_def opt_get_def Let_def)
qed

text \<open>
  Claim C1 (the code departs from it).  The claim: with \<open>required: True\<close> and a
  \<open>default\<close>, a source without the attribute makes the conversion raise \<open>ValueRequired\<close>.
  \<open>_normalize_value\<close> tests \<open>required\<close> on what \<open>_get_value\<close> returns, and \<open>_get_value\<close> has
  already put the default in: on \<open>rules=[('x', 'y', {'required': True, 'default':
  'fallback'})]\<close> and \<open>source={}\<close> the conversion returns \<open>{'x': 'fallback'}\<close> and raises
  nothing.
\<close>

theorem C1_default_substituted_before_required_check:
  "convert_class 1 env0 required_default_converter (VDict []) VNone VNone [] initial_state
     = (Inr (VDict [(''x'', VStr ''fallback'')]), \<lparr>counter = 1, ctx_slot = Some []\<rparr>)"
  by code_simp

text \<open>
  Claim C3.  For a rule with a \<open>default\<close> (a callable, a number or a string, as the
  normalizer enforces) and no stashed override: whenever the value resolved from the
  source and the context is \<open>_SENTRY\<close> (Omit), \<open>None\<close> or the empty string, \<open>_get_value\<close>
  returns the default, called if it is callable and as it is otherwise.  So
  \<open>rules=[('x', NOS, 'fallback')]\<close> on \<open>{}\<close> and \<open>rules=[('x', 'y', {'default':
  'fallback'})]\<close> on \<open>{'y': None}\<close> both give \<open>{'x': 'fallback'}\<close>.
\<close>

theorem C3_default_on_missing_null_empty:
  assumes "opt_get opts ''_kwarg_override'' VNone = VNone"
    and "raw_value E self ctx inst from_attr opts = Inr val"
    and "val = VSentry \<or> val = VNone \<or> val = VStr []"
    and "map_of opts ''default'' = Some d"
    and "is_callable d \<or> is_number d \<or> is_str d"
  shows "get_value E self ctx inst from_attr opts =
           (if is_callable d then py_call E d (source self) ctx [] [] else Inr d)
         \<and> fst (convert_class 1 env0 nos_default_converter (VDict []) VNone VNone []
                  initial_state) = Inr (VDict [(''x'', VStr ''fallback'')])
         \<and> fst (convert_class 1 env0 default_converter (VDict [(''y'', VNone)]) VNone VNone []
                  initial_state) = Inr (VDict [(''x'', VStr ''fallback'')])"
proof (intro conjI)
  show "get_value E self ctx inst from_attr opts =
          (if is_callable d then py_call E d (source self) ctx [] [] else Inr d)"
    using assms by (rule get_value_default)
  show "fst (convert_class 1 env0 nos_default_converter (VDict []) VNone VNone []
               initial_state) = Inr (VDict [(''x'', VStr ''fallback'')])"
    by code_simp
  show "fst (convert_class 1 env0 default_converter (VDict [(''y'', VNone)]) VNone VNone []
               initial_state) = Inr (VDict [(''x'', VStr ''fallback'')])"
    by code_simp
qed

theorem C3_default_on_missing_null_empty_witness:
  "raw_value env0 (dict_converter_instance (VDict [(''y'', VNone)])) [] VSentry (VStr ''y'')
       [(''default'', VStr ''fallback'')] = Inr VNone
   \<and> get_value env0 (dict_converter_instance (VDict [(''y'', VNone)])) [] VSentry (VStr ''y'')
       [(''default'', VStr ''fallback'')] = Inr (VStr ''fallback'')"
proof -
  have h1: "opt_get [(''default'', VStr ''fallback'')] ''_kwarg_override'' VNone = VNone"
    by code_simp
  have h2: "raw_value env0 (dict_converter_instance (VDict [(''y'', VNone)])) [] VSentry
              (VStr ''y'') [(''default'', VStr ''fallback'')] = Inr VNone"
    by code_simp
  have h3: "VNone = VSentry \<or> VNone = VNone \<or> VNone = VStr []" by simp
  have h4: "map_of [(''default'', VStr ''fallback'')] ''default'' = Some (VStr ''fallback'')"
    by simp
  have h5: "is_callable (VStr ''fallback'') \<or> is_number (VStr ''fallback'')
            \<or> is_str (VStr ''fallback'')" by simp
  from C3_default_on_missing_null_empty [OF h1 h2 h3 h4 h5] h2 show ?thesis by simp
qed

text \<open>
  Claim C10.  An override stashed under \<open>_kwarg_override\<close> that is not \<open>None\<close> is what
  \<open>_get_value\<close> returns, whatever the getter, the context and the default would give.  An
  override that is \<open>None\<close> is passed over, and the value is resolved as for the same rule
  without the override: the two results are equal whenever the getter call gives the same
  on the options with and without the override (a custom getter is handed the options),
  in particular for every rule without a custom getter.  A custom getter is called: the
  value it returns, when it is neither \<open>_SENTRY\<close>, \<open>None\<close> nor the empty string, is the
  resolved value (pluralized if asked), and its exception is the exception of
  \<open>_get_value\<close>.  Through \<open>dynamic_copy_attrs\<close>: converting \<open>{'a': 1}\<close> with the rule \<open>'a'\<close>
  and the extra attribute \<open>a=None\<close> gives \<open>{'a': 1}\<close>, with \<open>a=5\<close> it gives \<open>{'a': 5}\<close>, an
  extra attribute \<open>b=None\<close> that no rule names leaves \<open>b\<close> out, and with the rule
  \<open>('a', {'getter': g})\<close> and \<open>a=None\<close> the destination gets what \<open>g\<close> returns.
\<close>

theorem C10_none_override_is_ignored:
  shows "(map_of opts ''_kwarg_override'' = Some v \<and> v \<noteq> VNone \<longrightarrow>
            get_value E self ctx inst from_attr opts = Inr v)
       \<and> (map_of opts ''_kwarg_override'' = Some VNone
            \<and> opt_get opts ''getter'' VSentry = VSentry \<longrightarrow>
            get_value E self ctx inst from_attr opts
              = get_value E self ctx inst from_attr (AList.delete ''_kwarg_override'' opts))
       \<and> (map_of opts ''_kwarg_override'' = Some VNone
            \<and> py_call E (opt_get opts ''getter'' VSentry) (source self) ctx
                 [source self, from_attr, VDict opts] []
              = py_call E (opt_get opts ''getter'' VSentry) (source self) ctx
                 [source self, from_attr, VDict (AList.delete ''_kwarg_override'' opts)] [] \<longrightarrow>
            get_value E self ctx inst from_attr opts
              = get_value E self ctx inst from_attr (AList.delete ''_kwarg_override'' opts))
       \<and> (map_of opts ''_kwarg_override'' = Some VNone
            \<and> \<not> truthy (opt_get opts ''pass_instance_to_converter'' (VBool False))
            \<and> from_attr \<noteq> NOS \<and> opt_get opts ''getter'' VSentry \<noteq> VSentry
            \<and> py_call E (opt_get opts ''getter'' VSentry) (source self) ctx
                 [source self, from_attr, VDict opts] [] = Inr got
            \<and> got \<noteq> VSentry \<and> got \<noteq> VNone \<and> got \<noteq> VStr [] \<longrightarrow>
            get_value E self ctx inst from_attr opts
              = Inr (if truthy (opt_get opts ''pluralize'' (VBool False))
                        \<and> \<not> val_is_collection got
                     then pluralize_val got else got))
       \<and> (map_of opts ''_kwarg_override'' = Some VNone
            \<and> \<not> truthy (opt_get opts ''pass_instance_to_converter'' (VBool False))
            \<and> from_attr \<noteq> NOS \<and> opt_get opts ''getter'' VSentry \<noteq> VSentry
            \<and> py_call E (opt_get opts ''getter'' VSentry) (source self) ctx
                 [source self, from_attr, VDict opts] [] = Inl e \<longrightarrow>
            get_value E self ctx inst from_attr opts = Inl e)
       \<and> fst (convert_class 1 env0 plain_converter (VDict [(''a'', VInt 1)]) VNone VNone
                [(''a'', VNone)] initial_state) = Inr (VDict [(''a'', VInt 1)])
       \<and> fst (convert_class 1 env0 plain_converter (VDict [(''a'', VInt 1)]) VNone VNone
                [(''a'', VInt 5)] initial_state) = Inr (VDict [(''a'', VInt 5)])
       \<and> fst (convert_class 1 env0 plain_converter (VDict [(''a'', VInt 1)]) VNone VNone
                [(''b'', VNone)] initial_state) = Inr (VDict [(''a'', VInt 1)])
       \<and> fst (convert_class 1 env1 getter_converter (VDict []) VNone VNone
                [(''a'', VNone)] initial_state)
           = Inr (VDict [(''a'', VDict [(''k'', VInt 2)])])"
proof (intro conjI impI)
  assume "map_of opts ''_kwarg_override'' = Some v \<and> v \<noteq> VNone"
  then show "get_value E self ctx inst from_attr opts = Inr v"
    by (simp add: get_value_override)
next
  assume a: "map_of opts ''_kwarg_override'' = Some VNone
             \<and> opt_get opts ''getter'' VSentry = VSentry"
  then have "opt_get opts ''_kwarg_override'' VNone = VNone"
    by (simp add: opt_get_def)
  moreover have "raw_value E self ctx inst from_attr (AList.delete ''_kwarg_override'' opts)
                   = raw_value E self ctx inst from_attr opts"
    using a by (simp add: raw_value_def opt_get_delete_other)
  ultimately show "get_value E self ctx inst from_attr opts
                     = get_value E self ctx inst from_attr (AList.delete ''_kwarg_override'' opts)"
    by (simp add: get_value_def opt_get_delete_other opt_get_delete_same Let_def
          cong: sum.case_cong if_cong)
next
  assume a: "map_of opts ''_kwarg_override'' = Some VNone
             \<and> py_call E (opt_get opts ''getter'' VSentry) (source self) ctx
                  [source self, from_attr, VDict opts] []
               = py_call E (opt_get opts ''getter'' VSentry) (source self) ctx
                  [source self, from_attr, VDict (AList.delete ''_kwarg_override'' opts)] []"
  then have "opt_get opts ''_kwarg_override'' VNone = VNone"
    by (simp add: opt_get_def)
  moreover have "raw_value E self ctx inst from_attr (AList.delete ''_kwarg_override'' opts)
                   = raw_value E self ctx inst from_attr opts"
    using a by (simp add: raw_value_def opt_get_delete_other)
  ultimately show "get_value E self ctx inst from_attr opts
                     = get_value E self ctx inst from_attr (AList.delete ''_kwarg_override'' opts)"
    by (simp add: get_value_def opt_get_delete_other opt_get_delete_same Let_def
          cong: sum.case_cong if_cong)
next
  assume a: "map_of opts ''_kwarg_override'' = Some VNone
             \<and> \<not> truthy (opt_get opts ''pass_instance_to_converter'' (VBool False))
             \<and> from_attr \<noteq> NOS \<and> opt_get opts ''getter'' VSentry \<noteq> VSentry
             \<and> py_call E (opt_get opts ''getter'' VSentry) (source self) ctx
                  [source self, from_attr, VDict opts] [] = Inr got
             \<and> got \<noteq> VSentry \<and> got \<noteq> VNone \<and> got \<noteq> VStr []"
  then have "opt_get opts ''_kwarg_override'' VNone = VNone"
    by (simp add: opt_get_def)
  moreover have "raw_value E self ctx inst from_attr opts = Inr got"
    using a by (simp add: raw_value_def)
  ultimately show "get_value E self ctx inst from_attr opts
                     = Inr (if truthy (opt_get opts ''pluralize'' (VBool False))
                               \<and> \<not> val_is_collection got
                            then pluralize_val got else got)"
    using a by (simp add: get_value_def Let_def)
next
  assume a: "map_of opts ''_kwarg_override'' = Some VNone
             \<and> \<not> truthy (opt_get opts ''pass_instance_to_converter'' (VBool False))
             \<and> from_attr \<noteq> NOS \<and> opt_get opts ''getter'' VSentry \<noteq> VSentry
             \<and> py_call E (opt_get opts ''getter'' VSentry) (source self) ctx
                  [source self, from_attr, VDict opts] [] = Inl e"
  then have "opt_get opts ''_kwarg_override'' VNone = VNone"
    by (simp add: opt_get_def)
  moreover have "raw_value E self ctx inst from_attr opts = Inl e"
    using a by (simp add: raw_value_def)
  ultimately show "get_value E self ctx inst from_attr opts = Inl e"
    by (simp add: get_value_def)
next
  show "fst (convert_class 1 env0 plain_converter (VDict [(''a'', VInt 1)]) VNone VNone
               [(''a'', VNone)] initial_state) = Inr (VDict [(''a'', VInt 1)])"
    by code_simp
  show "fst (convert_class 1 env0 plain_converter (VDict [(''a'', VInt 1)]) VNone VNone
               [(''a'', VInt 5)] initial_state) = Inr (VDict [(''a'', VInt 5)])"
    by code_simp
  show "fst (convert_class 1 env0 plain_converter (VDict [(''a'', VInt 1)]) VNone VNone
               [(''b'', VNone)] initial_state) = Inr (VDict [(''a'', VInt 1)])"
    by code_simp
  show "fst (convert_class 1 env1 getter_converter (VDict []) VNone VNone
               [(''a'', VNone)] initial_state)
          = Inr (VDict [(''a'', VDict [(''k'', VInt 2)])])"
    by code_simp
qed

theorem C10_none_override_is_ignored_witness:
  "get_value env0 (dict_converter_instance (VDict [(''a'', VInt 1)])) [] VSentry (VStr ''a'')
       [(''_kwarg_override'', VInt 5)] = Inr (VInt 5)
   \<and> get_value env0 (dict_converter_instance (VDict [(''a'', VInt 1)])) [] VSentry (VStr ''a'')
       [(''_kwarg_override'', VNone)]
     = get_value env0 (dict_converter_instance (VDict [(''a'', VInt 1)])) [] VSentry (VStr ''a'') []
   \<and> get_value env1 (dict_converter_instance (VDict [(''a'', VInt 1)])) [] VSentry (VStr ''a'')
       [(''_kwarg_override'', VNone), (''getter'', VFun 1)]
     = get_value env1 (dict_converter_instance (VDict [(''a'', VInt 1)])) [] VSentry (VStr ''a'')
         [(''getter'', VFun 1)]
   \<and> get_value env1 (dict_converter_instance (VDict [(''a'', VInt 1)])) [] VSentry (VStr ''a'')
       [(''_kwarg_override'', VNone), (''getter'', VFun 1)] = Inr (VDict [(''k'', VInt 2)])
   \<and> get_value env0 (dict_converter_instance (VDict [(''a'', VInt 1)])) [] VSentry (VStr ''a'')
       [(''_kwarg_override'', VNone), (''getter'', VFun 3)] = Inl (Raised 0)"
proof -
  let ?self = "dict_converter_instance (VDict [(''a'', VInt 1)])"
  have a: "get_value env0 ?self [] VSentry (VStr ''a'') [(''_kwarg_override'', VInt 5)]
             = Inr (VInt 5)"
    using C10_none_override_is_ignored
            [where opts = "[(''_kwarg_override'', VInt 5)]" and v = "VInt 5" and E = env0
               and self = ?self and ctx = "[]" and inst = VSentry and from_attr = "VStr ''a''"]
    by simp
  have b: "get_value env0 ?self [] VSentry (VStr ''a'') [(''_kwarg_override'', VNone)]
           = get_value env0 ?self [] VSentry (VStr ''a'') []"
    using C10_none_override_is_ignored
            [where opts = "[(''_kwarg_override'', VNone)]" and E = env0
               and self = ?self and ctx = "[]" and inst = VSentry and from_attr = "VStr ''a''"]
    by (simp add: opt_get_Cons opt_get_Nil)
  have agree: "py_call env1 (opt_get [(''_kwarg_override'', VNone), (''getter'', VFun 1)]
                               ''getter'' VSentry) (source ?self) []
                 [source ?self, VStr ''a'',
                  VDict [(''_kwarg_override'', VNone), (''getter'', VFun 1)]] []
               = py_call env1 (opt_get [(''_kwarg_override'', VNone), (''getter'', VFun 1)]
                               ''getter'' VSentry) (source ?self) []
                 [source ?self, VStr ''a'',
                  VDict (AList.delete ''_kwarg_override''
                           [(''_kwarg_override'', VNone), (''getter'', VFun 1)])] []"
    by (simp add: opt_get_Cons opt_get_Nil py_call_def env1_def env0_def)
  have got: "py_call env1 (opt_get [(''_kwarg_override'', VNone), (''getter'', VFun 1)]
                             ''getter'' VSentry) (source ?self) []
               [source ?self, VStr ''a'',
                VDict [(''_kwarg_override'', VNone), (''getter'', VFun 1)]] []
             = Inr (VDict [(''k'', VInt 2)])"
    by (simp add: opt_get_Cons opt_get_Nil py_call_def env1_def env0_def)
  note t = C10_none_override_is_ignored
            [where opts = "[(''_kwarg_override'', VNone), (''getter'', VFun 1)]" and E = env1
               and self = ?self and ctx = "[]" and inst = VSentry and from_attr = "VStr ''a''"
               and got = "VDict [(''k'', VInt 2)]"]
  have c: "get_value env1 ?self [] VSentry (VStr ''a'')
             [(''_kwarg_override'', VNone), (''getter'', VFun 1)]
           = get_value env1 ?self [] VSentry (VStr ''a'') [(''getter'', VFun 1)]"
    using t [THEN conjunct2, THEN conjunct2, THEN conjunct1] agree by simp
  have d: "get_value env1 ?self [] VSentry (VStr ''a'')
             [(''_kwarg_override'', VNone), (''getter'', VFun 1)] = Inr (VDict [(''k'', VInt 2)])"
    using t [THEN conjunct2, THEN conjunct2, THEN conjunct2, THEN conjunct1] got
    by (simp add: opt_get_Cons opt_get_Nil NOS_def val_is_collection_def)
  have e: "get_value env0 ?self [] VSentry (VStr ''a'')
             [(''_kwarg_override'', VNone), (''getter'', VFun 3)] = Inl (Raised 0)"
    using C10_none_override_is_ignored
            [where opts = "[(''_kwarg_override'', VNone), (''getter'', VFun 3)]" and E = env0
               and self = ?self and ctx = "[]" and inst = VSentry and from_attr = "VStr ''a''"
               and e = "Raised 0", THEN conjunct2, THEN conjunct2, THEN conjunct2,
               THEN conjunct2, THEN conjunct1]
    by (simp add: opt_get_Cons opt_get_Nil NOS_def py_call_def env0_def)
  from a b c d e show ?thesis by blast
qed

section \<open>The context slot\<close>

lemma convert_Suc:
  "convert (Suc depth) E self s =
     updated_context E self (instance_convert (nested depth E) E self) s"
  by (simp add: nested_def[abs_def])

lemma ctx_get_restored: "ctx_get (s\<lparr>ctx_slot := Some (ctx_get s0)\<rparr>) = ctx_get s0"
  by (simp add: ctx_get_def)

lemma updated_context_restores:
  "ctx_get (snd (updated_context E self body s)) = ctx_get s"
  by (auto simp: updated_context_def Let_def ctx_get_restored
           split: sum.splits option.splits prod.splits)

lemma convert_restores: "ctx_get (snd (convert depth E self s)) = ctx_get s"
  by (cases depth) (simp_all add: updated_context_restores)

lemma normalize_single_slot:
  "ctx_slot (snd (normalize_single_copy_attr d field s)) = ctx_slot s"
  by (auto simp: normalize_single_copy_attr_def next_not_on_dest_attr_def Let_def
           split: option.splits prod.splits)

lemma normalize_copy_attrs_slot:
  "ctx_slot (snd (normalize_copy_attrs d rules s)) = ctx_slot s"
proof (induction rules arbitrary: s)
  case Nil
  then show ?case by simp
next
  case (Cons f fs)
  have a: "ctx_slot (snd (normalize_single_copy_attr d f s)) = ctx_slot s"
    by (rule normalize_single_slot)
  show ?case
  proof (cases "normalize_single_copy_attr d f s")
    case (Pair r s1)
    with a have s1: "ctx_slot s1 = ctx_slot s" by simp
    show ?thesis
    proof (cases r)
      case (Inl e)
      with Pair s1 show ?thesis by simp
    next
      case (Inr tr)
      obtain t fr o3 where tr: "tr = (t, fr, o3)" by (cases tr) auto
      have ih: "ctx_slot (snd (normalize_copy_attrs d fs s1)) = ctx_slot s1"
        by (rule Cons.IH)
      show ?thesis using Pair Inr tr s1 ih
        by (cases o3) (auto split: prod.splits sum.splits)
    qed
  qed
qed

lemma normalize_copy_attrs_slotD:
  "normalize_copy_attrs d rules s = (r, s') \<Longrightarrow> ctx_slot s' = ctx_slot s"
  using normalize_copy_attrs_slot[of d rules s] by simp

lemma dynamic_copy_attrs_slotD:
  "dynamic_copy_attrs cc e s = (r, s') \<Longrightarrow> ctx_slot s' = ctx_slot s"
  by (auto simp: dynamic_copy_attrs_def Let_def split: prod.splits sum.splits
           dest: normalize_copy_attrs_slotD)

lemma normalized_dynamic_copy_attrs_slotD:
  "normalized_dynamic_copy_attrs cc e s = (r, s') \<Longrightarrow> ctx_slot s' = ctx_slot s"
proof (cases "dynamic_copy_attrs cc e s")
  case (Pair q s1)
  then have s1: "ctx_slot s1 = ctx_slot s" by (rule dynamic_copy_attrs_slotD)
  assume a: "normalized_dynamic_copy_attrs cc e s = (r, s')"
  show ?thesis
  proof (cases q)
    case (Inl err)
    with Pair a s1 show ?thesis by (simp add: normalized_dynamic_copy_attrs_def)
  next
    case (Inr attrs)
    with Pair a have "normalize_copy_attrs (default_if_nos cc) attrs s1 = (r, s')"
      by (simp add: normalized_dynamic_copy_attrs_def)
    then have "ctx_slot s' = ctx_slot s1" by (rule normalize_copy_attrs_slotD)
    with s1 show ?thesis by simp
  qed
qed

lemma init_slotD: "init E cc a b c d e s = (r, s') \<Longrightarrow> ctx_slot s' = ctx_slot s"
  by (auto simp: init_def split: prod.splits sum.splits bool.splits if_splits
           dest: normalized_dynamic_copy_attrs_slotD)

lemma convert_class_restores:
  "ctx_get (snd (convert_class depth E cc a b c e s)) = ctx_get s"
proof (cases "init E cc a b c VNone e s")
  case (Pair r s1)
  then have "ctx_get s1 = ctx_get s" by (auto simp: ctx_get_def dest: init_slotD)
  with Pair show ?thesis
    by (cases r) (simp_all add: convert_class_def convert_restores)
qed

lemma nested_restores:
  "ctx_get (snd (nested depth E cc a c x e s)) = ctx_get s"
proof (cases "init E cc a VNone c x e s")
  case (Pair r s1)
  then have "ctx_get s1 = ctx_get s" by (auto simp: ctx_get_def dest: init_slotD)
  with Pair show ?thesis
    by (cases r) (simp_all add: nested_def convert_restores)
qed

lemma convert_runs_body_in_merged_context:
  assumes "(case build_context (cls self) of
              None \<Rightarrow> Inr (VDict [])
            | Some bc \<Rightarrow> py_call E bc (source self) (ctx_get s) [] []) = Inr (VDict built)"
    and "(if truthy (own_context self) then own_context self else VDict []) = VDict new"
  shows "convert (Suc depth) E self s =
           (fst (instance_convert (nested depth E) E self
                   (s\<lparr>ctx_slot := Some (dict_merge (dict_merge (ctx_get s) built) new)\<rparr>)),
            (snd (instance_convert (nested depth E) E self
                   (s\<lparr>ctx_slot := Some (dict_merge (dict_merge (ctx_get s) built) new)\<rparr>)))
              \<lparr>ctx_slot := Some (ctx_get s)\<rparr>)"
  using assms unfolding convert_Suc by (simp add: updated_context_def Let_def)

text \<open>
  Claim C5.  Whatever the depth, the converter, the environment and the state it is
  entered in (so at top level and nested alike), and whether it returns a value or an
  exception, \<open>convert\<close> leaves the context that the \<open>context\<close> property reads as it found
  it; the same holds for \<open>convert\<close> called on the class and for the nested conversion the
  pipeline starts.  The body \<open>instance_convert\<close> runs in the state whose slot holds
  \<open>{**old, **built, **caller-supplied}\<close>, and that state is left again on exit.
\<close>

theorem C5_context_restored_on_exit:
  "ctx_get (snd (convert depth E self s)) = ctx_get s
   \<and> ctx_get (snd (convert_class depth E cc src_arg context_arg dest_arg extras s)) = ctx_get s
   \<and> ctx_get (snd (nested depth E cc to_convert dest_arg extra_arg kwargs s)) = ctx_get s
   \<and> ((case build_context (cls self) of
          None \<Rightarrow> Inr (VDict [])
        | Some bc \<Rightarrow> py_call E bc (source self) (ctx_get s) [] []) = Inr (VDict built)
       \<and> (if truthy (own_context self) then own_context self else VDict []) = VDict new \<longrightarrow>
       convert (Suc depth) E self s =
         (fst (instance_convert (nested depth E) E self
                 (s\<lparr>ctx_slot := Some (dict_merge (dict_merge (ctx_get s) built) new)\<rparr>)),
          (snd (instance_convert (nested depth E) E self
                 (s\<lparr>ctx_slot := Some (dict_merge (dict_merge (ctx_get s) built) new)\<rparr>)))
            \<lparr>ctx_slot := Some (ctx_get s)\<rparr>))"
proof (intro conjI impI)
  show "ctx_get (snd (convert depth E self s)) = ctx_get s"
    by (rule convert_restores)
  show "ctx_get (snd (convert_class depth E cc src_arg context_arg dest_arg extras s)) = ctx_get s"
    by (rule convert_class_restores)
  show "ctx_get (snd (nested depth E cc to_convert dest_arg extra_arg kwargs s)) = ctx_get s"
    by (rule nested_restores)
next
  assume "(case build_context (cls self) of
             None \<Rightarrow> Inr (VDict [])
           | Some bc \<Rightarrow> py_call E bc (source self) (ctx_get s) [] []) = Inr (VDict built)
          \<and> (if truthy (own_context self) then own_context self else VDict []) = VDict new"
  then show "convert (Suc depth) E self s =
         (fst (instance_convert (nested depth E) E self
                 (s\<lparr>ctx_slot := Some (dict_merge (dict_merge (ctx_get s) built) new)\<rparr>)),
          (snd (instance_convert (nested depth E) E self
                 (s\<lparr>ctx_slot := Some (dict_merge (dict_merge (ctx_get s) built) new)\<rparr>)))
            \<lparr>ctx_slot := Some (ctx_get s)\<rparr>)"
    by (intro convert_runs_body_in_merged_context) simp_all
qed

theorem C5_context_restored_on_exit_witness:
  "fst (convert_class 1 env0 required_converter (VDict []) (VDict [(''c'', VInt 2)]) VNone []
          \<lparr>counter = 1, ctx_slot = Some [(''k'', VInt 1)]\<rparr>)
     = Inl (ValueRequired (VStr ''y'') NotFound)
   \<and> ctx_get (snd (convert_class 1 env0 required_converter (VDict []) (VDict [(''c'', VInt 2)])
                     VNone [] \<lparr>counter = 1, ctx_slot = Some [(''k'', VInt 1)]\<rparr>))
     = [(''k'', VInt 1)]
   \<and> fst (convert_class 1 env0 plain_converter (VDict [(''a'', VInt 1)])
            (VDict [(''c'', VInt 2)]) VNone [] \<lparr>counter = 1, ctx_slot = Some [(''k'', VInt 1)]\<rparr>)
     = Inr (VDict [(''a'', VInt 1)])
   \<and> ctx_get (snd (convert_class 1 env0 plain_converter (VDict [(''a'', VInt 1)])
                     (VDict [(''c'', VInt 2)]) VNone []
                     \<lparr>counter = 1, ctx_slot = Some [(''k'', VInt 1)]\<rparr>))
     = [(''k'', VInt 1)]
   \<and> convert (Suc 0) env0
        ((dict_converter_instance (VDict []))\<lparr>own_context := VDict [(''c'', VInt 2)]\<rparr>)
        \<lparr>counter = 1, ctx_slot = Some [(''k'', VInt 1)]\<rparr>
     = (Inr (VDict []), \<lparr>counter = 1, ctx_slot = Some [(''k'', VInt 1)]\<rparr>)"
proof -
  let ?S = "\<lparr>counter = 1, ctx_slot = Some [(''k'', VInt 1)]\<rparr>"
  let ?self = "(dict_converter_instance (VDict []))\<lparr>own_context := VDict [(''c'', VInt 2)]\<rparr>"
  have a: "fst (convert_class 1 env0 required_converter (VDict []) (VDict [(''c'', VInt 2)])
                  VNone [] ?S) = Inl (ValueRequired (VStr ''y'') NotFound)"
    by code_simp
  have b: "fst (convert_class 1 env0 plain_converter (VDict [(''a'', VInt 1)])
                  (VDict [(''c'', VInt 2)]) VNone [] ?S) = Inr (VDict [(''a'', VInt 1)])"
    by code_simp
  have c: "ctx_get ?S = [(''k'', VInt 1)]"
    by (simp add: ctx_get_def)
  have hyp: "(case build_context (cls ?self) of
                None \<Rightarrow> Inr (VDict [])
              | Some bc \<Rightarrow> py_call env0 bc (source ?self) (ctx_get ?S) [] []) = Inr (VDict [])
             \<and> (if truthy (own_context ?self) then own_context ?self else VDict [])
                 = VDict [(''c'', VInt 2)]"
    by (simp add: dict_converter_instance_def DictConverter_def)
  let ?X = "instance_convert (nested 0 env0) env0 ?self
              \<lparr>counter = 1,
               ctx_slot = Some (dict_merge (dict_merge [(''k'', VInt 1)] []) [(''c'', VInt 2)])\<rparr>"
  have fstX: "fst ?X = Inr (VDict [])"
    by code_simp
  have sndX: "snd ?X = \<lparr>counter = 1, ctx_slot = Some [(''k'', VInt 1), (''c'', VInt 2)]\<rparr>"
    by code_simp
  note t = C5_context_restored_on_exit
             [where depth = 0 and E = env0 and self = ?self and s = ?S
                and built = "[]" and new = "[(''c'', VInt 2)]"]
  note u = C5_context_restored_on_exit
             [where depth = 1 and E = env0 and s = ?S
                and cc = required_converter and src_arg = "VDict []"
                and context_arg = "VDict [(''c'', VInt 2)]" and dest_arg = VNone
                and extras = "[]"]
  note v = C5_context_restored_on_exit
             [where depth = 1 and E = env0 and s = ?S
                and cc = plain_converter and src_arg = "VDict [(''a'', VInt 1)]"
                and context_arg = "VDict [(''c'', VInt 2)]" and dest_arg = VNone
                and extras = "[]"]
  from t hyp have "convert (Suc 0) env0 ?self ?S =
         (fst (instance_convert (nested 0 env0) env0 ?self
                 (?S\<lparr>ctx_slot := Some (dict_merge (dict_merge (ctx_get ?S) []) [(''c'', VInt 2)])\<rparr>)),
          (snd (instance_convert (nested 0 env0) env0 ?self
                 (?S\<lparr>ctx_slot := Some (dict_merge (dict_merge (ctx_get ?S) []) [(''c'', VInt 2)])\<rparr>)))
            \<lparr>ctx_slot := Some (ctx_get ?S)\<rparr>)"
    by blast
  then have "convert (Suc 0) env0 ?self ?S = (fst ?X, (snd ?X)\<lparr>ctx_slot := Some [(''k'', VInt 1)]\<rparr>)"
    by (simp only: c pstate.simps)
  then have g: "convert (Suc 0) env0 ?self ?S = (Inr (VDict []), ?S)"
    by (simp only: fstX sndX pstate.simps)
  from u have u': "ctx_get (snd (convert_class 1 env0 required_converter (VDict [])
                      (VDict [(''c'', VInt 2)]) VNone [] ?S)) = ctx_get ?S"
    by blast
  from v have v': "ctx_get (snd (convert_class 1 env0 plain_converter (VDict [(''a'', VInt 1)])
                      (VDict [(''c'', VInt 2)]) VNone [] ?S)) = ctx_get ?S"
    by blast
  show ?thesis
    using a b g u' v' unfolding c by blast
qed

section \<open>Population and merged attributes\<close>

lemma populate_skips_merge:
  "populate_instance setv inst params =
   populate_instance setv inst
     (filter (\<lambda>p. \<not> truthy (opt_get (snd (snd p)) ''merge'' (VBool False))) params)"
  by (induction params arbitrary: inst) (auto split: sum.splits)

lemma populate_all_merge:
  "list_all (\<lambda>p. truthy (opt_get (snd (snd p)) ''merge'' (VBool False))) params \<Longrightarrow>
   populate_instance setv inst params = Inr inst"
  by (induction params arbitrary: inst) auto

text \<open>
  Claim C7 (amended).  The population step skips every rule whose options flag \<open>merge\<close>
  as true: the result of \<open>populate_instance\<close> is the one for the parameters without the
  flagged entries, whatever \<open>_set_value\<close> would do on them (it is never called for them),
  and when all entries are flagged the destination is returned as it was.  An entry that
  is not flagged is handed to \<open>_set_value\<close>; the converter-level \<open>merge_all\<close> is not
  consulted.  Converting \<open>{'a': 1}\<close> into the destination \<open>{'a': 0}\<close> with the rule
  \<open>('a', {'merge': True})\<close> leaves \<open>{'a': 0}\<close>.
\<close>

theorem C7_merge_flagged_rules_are_not_set:
  "populate_instance setv inst params =
     populate_instance setv inst
       (filter (\<lambda>p. \<not> truthy (opt_get (snd (snd p)) ''merge'' (VBool False))) params)
   \<and> (list_all (\<lambda>p. truthy (opt_get (snd (snd p)) ''merge'' (VBool False))) params \<longrightarrow>
        populate_instance setv inst params = Inr inst)
   \<and> (\<not> truthy (opt_get (snd (snd p)) ''merge'' (VBool False)) \<longrightarrow>
        populate_instance setv inst [p] = setv inst (fst p) (snd (snd p)) (fst (snd p)))
   \<and> fst (convert_class 1 env0 merge_flag_converter (VDict [(''a'', VInt 1)]) VNone
            (VDict [(''a'', VInt 0)]) [] initial_state) = Inr (VDict [(''a'', VInt 0)])"
proof (intro conjI impI)
  show "populate_instance setv inst params =
          populate_instance setv inst
            (filter (\<lambda>p. \<not> truthy (opt_get (snd (snd p)) ''merge'' (VBool False))) params)"
    by (rule populate_skips_merge)
  show "populate_instance setv inst params = Inr inst"
    if "list_all (\<lambda>p. truthy (opt_get (snd (snd p)) ''merge'' (VBool False))) params"
    using that by (rule populate_all_merge)
  show "populate_instance setv inst [p] = setv inst (fst p) (snd (snd p)) (fst (snd p))"
    if "\<not> truthy (opt_get (snd (snd p)) ''merge'' (VBool False))"
    using that by (simp split: sum.splits)
  show "fst (convert_class 1 env0 merge_flag_converter (VDict [(''a'', VInt 1)]) VNone
               (VDict [(''a'', VInt 0)]) [] initial_state) = Inr (VDict [(''a'', VInt 0)])"
    by code_simp
qed

theorem C7_merge_flagged_rules_are_not_set_witness:
  "populate_instance (\<lambda>inst to_attr opts val. Inl (Raised 1)) (VDict [(''a'', VInt 0)])
      [(''a'', VInt 1, [(''merge'', VBool True)])] = Inr (VDict [(''a'', VInt 0)])
   \<and> populate_instance (\<lambda>inst to_attr opts val. Inl (Raised 1)) (VDict [(''a'', VInt 0)])
      [(''a'', VInt 1, [])] = Inl (Raised 1)"
proof -
  note t = C7_merge_flagged_rules_are_not_set
             [where setv = "\<lambda>inst to_attr opts val. Inl (Raised 1)"
                and inst = "VDict [(''a'', VInt 0)]"
                and params = "[(''a'', VInt 1, [(''merge'', VBool True)])]"
                and p = "(''a'', VInt 1, [])"]
  have h1: "list_all (\<lambda>p. truthy (opt_get (snd (snd p)) ''merge'' (VBool False)))
              [(''a'', VInt 1, [(''merge'', VBool True)])]"
    by (simp add: opt_get_Cons)
  have h2: "\<not> truthy (opt_get (snd (snd (''a'', VInt 1, []))) ''merge'' (VBool False))"
    by (simp add: opt_get_Nil)
  from t h1 have a: "populate_instance (\<lambda>inst to_attr opts val. Inl (Raised 1))
                       (VDict [(''a'', VInt 0)]) [(''a'', VInt 1, [(''merge'', VBool True)])]
                     = Inr (VDict [(''a'', VInt 0)])"
    by blast
  from t h2 have b: "populate_instance (\<lambda>inst to_attr opts val. Inl (Raised 1))
                       (VDict [(''a'', VInt 0)]) [(''a'', VInt 1, [])]
                     = (\<lambda>inst to_attr opts val. Inl (Raised 1)) (VDict [(''a'', VInt 0)])
                         (fst (''a'', VInt 1, [])) (snd (snd (''a'', VInt 1, [])))
                         (fst (snd (''a'', VInt 1, [])))"
    by blast
  from a b show ?thesis by simp
qed

theorem C7_merge_all_rule_is_set_counterexample:
  "merge_all merge_all_converter
   \<and> fst (convert_class 1 env0 merge_all_converter (VDict [(''a'', VInt 1)]) VNone
            (VDict [(''a'', VInt 0)]) [] initial_state) = Inr (VDict [(''a'', VInt 1)])
   \<and> fst (convert_class 1 env0 merge_all_converter (VDict [(''a'', VInt 1)]) VNone
            (VInt 5) [] initial_state) = Inl (AttributeError (VInt 5) ''a'')"
proof (intro conjI)
  show "merge_all merge_all_converter"
    by (simp add: merge_all_converter_def)
  show "fst (convert_class 1 env0 merge_all_converter (VDict [(''a'', VInt 1)]) VNone
               (VDict [(''a'', VInt 0)]) [] initial_state) = Inr (VDict [(''a'', VInt 1)])"
    by code_simp
  show "fst (convert_class 1 env0 merge_all_converter (VDict [(''a'', VInt 1)]) VNone
               (VInt 5) [] initial_state) = Inl (AttributeError (VInt 5) ''a'')"
    by code_simp
qed

section \<open>Construction: source and destination types\<close>

lemma init_union_to_class:
  "from_class cc \<noteq> TAbsent \<Longrightarrow> is_union_type (to_class cc) \<Longrightarrow>
   init E cc src context_arg dest_arg extra_arg extras s = (Inl InvalidToClassException, s)"
  by (cases "to_class cc") (simp_all add: init_def)

lemma init_union_source_ok:
  assumes "from_class cc = TUnion alts" and "to_class cc = TClass c"
    and "src = VNone \<or> is_one_of_union_types E src alts"
    and "normalized_dynamic_copy_attrs cc extras s = (Inr attrs, st)"
  shows "init E cc src context_arg dest_arg extra_arg extras s =
           (Inr \<lparr>cls = cc, source = src, dest = dest_arg, extra_attrs = extras,
                 extra = (if truthy extra_arg then extra_arg else VDict []),
                 own_context = context_arg, creating = (dest_arg = VNone),
                 normalized_attrs = attrs\<rparr>, st)"
  using assms by (auto simp: init_def is_valid_source_type_def)

lemma init_union_source_mismatch:
  assumes "from_class cc = TUnion alts" and "to_class cc = TClass c"
    and "src \<noteq> VNone" and "\<not> is_one_of_union_types E src alts"
  shows "init E cc src context_arg dest_arg extra_arg extras s =
           (Inl (TypeError (SourceNotInstance src)), s)"
  using assms by (simp add: init_def is_valid_source_type_def)

text \<open>
  Claim C8 (amended).  For a converter whose \<open>from_class\<close> is a \<open>Union\<close> of alternatives
  and whose \<open>to_class\<close> is a class: a source other than \<open>None\<close> that is an instance of one
  alternative passes the type check, and construction succeeds when the rules normalize;
  a source other than \<open>None\<close> that is an instance of none of them fails with the
  \<open>TypeError\<close> of the type mismatch; a \<open>None\<close> source is accepted without a type check.
  With a \<open>to_class\<close> that is a \<open>Union\<close> (and a \<open>from_class\<close> that is declared), construction
  fails with \<open>InvalidToClassException\<close> for every source, before the source is checked
  and before any rule is normalized (the state is the one it was called in).
\<close>

theorem C8_union_source_and_union_destination:
  "(from_class cc = TUnion alts \<and> to_class cc = TClass c
      \<and> src \<noteq> VNone \<and> is_one_of_union_types E src alts
      \<and> normalized_dynamic_copy_attrs cc extras s = (Inr attrs, st) \<longrightarrow>
      init E cc src context_arg dest_arg extra_arg extras s =
        (Inr \<lparr>cls = cc, source = src, dest = dest_arg, extra_attrs = extras,
              extra = (if truthy extra_arg then extra_arg else VDict []),
              own_context = context_arg, creating = (dest_arg = VNone),
              normalized_attrs = attrs\<rparr>, st))
   \<and> (from_class cc = TUnion alts \<and> to_class cc = TClass c
      \<and> src \<noteq> VNone \<and> \<not> is_one_of_union_types E src alts \<longrightarrow>
      init E cc src context_arg dest_arg extra_arg extras s =
        (Inl (TypeError (SourceNotInstance src)), s))
   \<and> (from_class cc = TUnion alts \<and> to_class cc = TClass c
      \<and> normalized_dynamic_copy_attrs cc extras s = (Inr attrs, st) \<longrightarrow>
      init E cc VNone context_arg dest_arg extra_arg extras s =
        (Inr \<lparr>cls = cc, source = VNone, dest = dest_arg, extra_attrs = extras,
              extra = (if truthy extra_arg then extra_arg else VDict []),
              own_context = context_arg, creating = (dest_arg = VNone),
              normalized_attrs = attrs\<rparr>, st))
   \<and> (from_class cc \<noteq> TAbsent \<and> is_union_type (to_class cc) \<longrightarrow>
      init E cc src context_arg dest_arg extra_arg extras s = (Inl InvalidToClassException, s))"
  by (intro conjI impI)
     (simp_all add: init_union_source_ok init_union_source_mismatch init_union_to_class)

theorem C8_union_source_and_union_destination_witness:
  "fst (init env0 union_source_converter (VDict [(''a'', VInt 10)]) VNone VNone VNone []
          initial_state)
     = Inr \<lparr>cls = union_source_converter, source = VDict [(''a'', VInt 10)], dest = VNone,
            extra_attrs = [], extra = VDict [], own_context = VNone, creating = True,
            normalized_attrs = [(VStr ''a'', VStr ''a'', [])]\<rparr>
   \<and> fst (init env0 union_source_converter (VObj 1 [(''a'', VInt 10)]) VNone VNone VNone []
            initial_state)
     = Inr \<lparr>cls = union_source_converter, source = VObj 1 [(''a'', VInt 10)], dest = VNone,
            extra_attrs = [], extra = VDict [], own_context = VNone, creating = True,
            normalized_attrs = [(VStr ''a'', VStr ''a'', [])]\<rparr>
   \<and> init env0 union_source_converter (VInt 3) VNone VNone VNone [] initial_state
     = (Inl (TypeError (SourceNotInstance (VInt 3))), initial_state)
   \<and> init env0 union_dest_converter (VDict [(''a'', VInt 10)]) VNone VNone VNone []
        initial_state
     = (Inl InvalidToClassException, initial_state)"
proof -
  have n: "normalized_dynamic_copy_attrs union_source_converter [] initial_state
             = (Inr [(VStr ''a'', VStr ''a'', [])], initial_state)"
    by code_simp
  have fc: "from_class union_source_converter = TUnion [CDict, CUser 1]
            \<and> to_class union_source_converter = TClass CDict"
    by (simp add: union_source_converter_def DictConverter_def)
  have i1: "is_one_of_union_types env0 (VDict [(''a'', VInt 10)]) [CDict, CUser 1]" by code_simp
  have i2: "is_one_of_union_types env0 (VObj 1 [(''a'', VInt 10)]) [CDict, CUser 1]" by code_simp
  have i3: "\<not> is_one_of_union_types env0 (VInt 3) [CDict, CUser 1]" by code_simp
  have d: "from_class union_dest_converter \<noteq> TAbsent
           \<and> is_union_type (to_class union_dest_converter)"
    by (simp add: union_dest_converter_def DictConverter_def)
  note t1 = C8_union_source_and_union_destination
             [where cc = union_source_converter and alts = "[CDict, CUser 1]" and c = CDict
                and src = "VDict [(''a'', VInt 10)]" and E = env0 and extras = "[]"
                and s = initial_state and attrs = "[(VStr ''a'', VStr ''a'', [])]"
                and st = initial_state and context_arg = VNone and dest_arg = VNone
                and extra_arg = VNone]
  note t2 = C8_union_source_and_union_destination
             [where cc = union_source_converter and alts = "[CDict, CUser 1]" and c = CDict
                and src = "VObj 1 [(''a'', VInt 10)]" and E = env0 and extras = "[]"
                and s = initial_state and attrs = "[(VStr ''a'', VStr ''a'', [])]"
                and st = initial_state and context_arg = VNone and dest_arg = VNone
                and extra_arg = VNone]
  note t3 = C8_union_source_and_union_destination
             [where cc = union_source_converter and alts = "[CDict, CUser 1]" and c = CDict
                and src = "VInt 3" and E = env0 and extras = "[]"
                and s = initial_state and context_arg = VNone and dest_arg = VNone
                and extra_arg = VNone]
  note t4 = C8_union_source_and_union_destination
             [where cc = union_dest_converter
                and src = "VDict [(''a'', VInt 10)]" and E = env0 and extras = "[]"
                and s = initial_state and context_arg = VNone and dest_arg = VNone
                and extra_arg = VNone]
  from t1 n fc i1 have a: "fst (init env0 union_source_converter (VDict [(''a'', VInt 10)])
                                  VNone VNone VNone [] initial_state)
     = Inr \<lparr>cls = union_source_converter, source = VDict [(''a'', VInt 10)], dest = VNone,
            extra_attrs = [], extra = VDict [], own_context = VNone, creating = True,
            normalized_attrs = [(VStr ''a'', VStr ''a'', [])]\<rparr>"
    by simp
  from t2 n fc i2 have b: "fst (init env0 union_source_converter (VObj 1 [(''a'', VInt 10)])
                                  VNone VNone VNone [] initial_state)
     = Inr \<lparr>cls = union_source_converter, source = VObj 1 [(''a'', VInt 10)], dest = VNone,
            extra_attrs = [], extra = VDict [], own_context = VNone, creating = True,
            normalized_attrs = [(VStr ''a'', VStr ''a'', [])]\<rparr>"
    by simp
  from t3 fc i3 have c: "init env0 union_source_converter (VInt 3) VNone VNone VNone []
                           initial_state
     = (Inl (TypeError (SourceNotInstance (VInt 3))), initial_state)"
    by simp
  from t4 d have e: "init env0 union_dest_converter (VDict [(''a'', VInt 10)]) VNone VNone
                       VNone [] initial_state = (Inl InvalidToClassException, initial_state)"
    by blast
  from a b c e show ?thesis by blast
qed

theorem C8_none_source_counterexample:
  "\<not> is_one_of_union_types env0 VNone [CDict, CUser 1]
   \<and> from_class union_source_converter = TUnion [CDict, CUser 1]
   \<and> fst (init env0 union_source_converter VNone VNone VNone VNone [] initial_state)
     = Inr \<lparr>cls = union_source_converter, source = VNone, dest = VNone,
            extra_attrs = [], extra = VDict [], own_context = VNone, creating = True,
            normalized_attrs = [(VStr ''a'', VStr ''a'', [])]\<rparr>"
proof (intro conjI)
  show "\<not> is_one_of_union_types env0 VNone [CDict, CUser 1]" by code_simp
  show "from_class union_source_converter = TUnion [CDict, CUser 1]"
    by (simp add: union_source_converter_def DictConverter_def)
  show "fst (init env0 union_source_converter VNone VNone VNone VNone [] initial_state)
     = Inr \<lparr>cls = union_source_converter, source = VNone, dest = VNone,
            extra_attrs = [], extra = VDict [], own_context = VNone, creating = True,
            normalized_attrs = [(VStr ''a'', VStr ''a'', [])]\<rparr>"
    by code_simp
qed

section \<open>The converter-level options on nulls and empty strings\<close>





section \<open>Context precedence\<close>

lemma map_of_fold_dict_set:
  "map_of (fold (\<lambda>kv d. dict_set d (fst kv) (snd kv)) b a) = map_of a ++ map_of (rev b)"
proof (induction b arbitrary: a)
  case Nil
  then show ?case by simp
next
  case (Cons x xs)
  have "map_of (fold (\<lambda>kv d. dict_set d (fst kv) (snd kv)) (x # xs) a)
          = map_of (dict_set a (fst x) (snd x)) ++ map_of (rev xs)"
    by (simp add: Cons.IH)
  also have "\<dots> = (map_of a)(fst x \<mapsto> snd x) ++ map_of (rev xs)"
    by (simp add: dict_set_def update_conv')
  also have "\<dots> = map_of a ++ map_of (rev (x # xs))"
    by (cases x) (auto simp: fun_eq_iff map_add_def split: option.splits)
  finally show ?case .
qed

lemma map_of_rev_distinct:
  "distinct (map fst b) \<Longrightarrow> map_of (rev b) = map_of b"
  by (subst map_of_inject_set) (simp_all add: rev_map[symmetric])

lemma map_of_dict_merge:
  "distinct (map fst b) \<Longrightarrow> map_of (dict_merge a b) = map_of a ++ map_of b"
  by (simp add: dict_merge_def map_of_fold_dict_set map_of_rev_distinct)

lemma merged_context_lookup:
  assumes "distinct (map fst built)" and "distinct (map fst new)"
  shows "map_of (dict_merge (dict_merge old built) new) k =
           (case map_of new k of
              Some v \<Rightarrow> Some v
            | None \<Rightarrow> (case map_of built k of Some v \<Rightarrow> Some v | None \<Rightarrow> map_of old k))"
  using assms by (simp add: map_of_dict_merge map_add_def split: option.splits)

lemma raw_value_from_source:
  assumes "\<not> truthy (opt_get opts ''pass_instance_to_converter'' (VBool False))"
    and "from_attr \<noteq> NOS" and "opt_get opts ''getter'' VSentry = VSentry"
  shows "raw_value E self ctx inst from_attr opts =
           Inr (if default_getter E self (source self) from_attr VSentry = VSentry
                then pyget E (VDict ctx) from_attr VSentry
                else default_getter E self (source self) from_attr VSentry)"
  using assms by (simp add: raw_value_def)

text \<open>
  Claim C4 (amended).  A value that the child's own source has under the rule's source
  path is the resolved value whatever the context holds; the context is looked up only
  when the source gives \<open>_SENTRY\<close>.  In the context of a conversion, a key of the
  caller-supplied context beats the same key of the converter's own built context, and
  a key of the built context beats the same key of the inherited (previous) context.
  So a child converting \<open>{'k': 9}\<close> under an inherited \<open>{'k': 1}\<close> yields \<open>9\<close>, and a child
  with \<open>build_context\<close> returning \<open>{'k': 2}\<close>, called with \<open>context={'k': 3}\<close> under an
  inherited \<open>{'k': 1}\<close>, yields \<open>3\<close>.
\<close>

theorem C4_context_precedence:
  "(distinct (map fst built) \<and> distinct (map fst new) \<longrightarrow>
      map_of (dict_merge (dict_merge old built) new) k =
        (case map_of new k of
           Some v \<Rightarrow> Some v
         | None \<Rightarrow> (case map_of built k of Some v \<Rightarrow> Some v | None \<Rightarrow> map_of old k)))
   \<and> (\<not> truthy (opt_get opts ''pass_instance_to_converter'' (VBool False))
        \<and> from_attr \<noteq> NOS \<and> opt_get opts ''getter'' VSentry = VSentry
        \<and> default_getter E self (source self) from_attr VSentry \<noteq> VSentry \<longrightarrow>
        raw_value E self ctx inst from_attr opts
          = Inr (default_getter E self (source self) from_attr VSentry))
   \<and> (\<not> truthy (opt_get opts ''pass_instance_to_converter'' (VBool False))
        \<and> from_attr \<noteq> NOS \<and> opt_get opts ''getter'' VSentry = VSentry
        \<and> default_getter E self (source self) from_attr VSentry = VSentry \<longrightarrow>
        raw_value E self ctx inst from_attr opts = Inr (pyget E (VDict ctx) from_attr VSentry))
   \<and> fst (convert_class 2 env1 parent_converter (VDict [(''subs'', VList [VDict [(''k'', VInt 9)]])])
            (VDict [(''k'', VInt 1)]) VNone [] initial_state)
       = Inr (VDict [(''subs'', VList [VDict [(''k'', VInt 9)]])])
   \<and> fst (convert_class 1 env1 child_converter (VDict []) (VDict [(''k'', VInt 3)]) VNone []
            \<lparr>counter = 1, ctx_slot = Some [(''k'', VInt 1)]\<rparr>)
       = Inr (VDict [(''k'', VInt 3)])"
proof (intro conjI impI)
  show "map_of (dict_merge (dict_merge old built) new) k =
        (case map_of new k of
           Some v \<Rightarrow> Some v
         | None \<Rightarrow> (case map_of built k of Some v \<Rightarrow> Some v | None \<Rightarrow> map_of old k))"
    if "distinct (map fst built) \<and> distinct (map fst new)"
    using that by (simp add: merged_context_lookup)
  show "raw_value E self ctx inst from_attr opts
          = Inr (default_getter E self (source self) from_attr VSentry)"
    if "\<not> truthy (opt_get opts ''pass_instance_to_converter'' (VBool False))
        \<and> from_attr \<noteq> NOS \<and> opt_get opts ''getter'' VSentry = VSentry
        \<and> default_getter E self (source self) from_attr VSentry \<noteq> VSentry"
    using that by (simp add: raw_value_from_source)
  show "raw_value E self ctx inst from_attr opts = Inr (pyget E (VDict ctx) from_attr VSentry)"
    if "\<not> truthy (opt_get opts ''pass_instance_to_converter'' (VBool False))
        \<and> from_attr \<noteq> NOS \<and> opt_get opts ''getter'' VSentry = VSentry
        \<and> default_getter E self (source self) from_attr VSentry = VSentry"
    using that by (simp add: raw_value_from_source)
  show "fst (convert_class 2 env1 parent_converter
               (VDict [(''subs'', VList [VDict [(''k'', VInt 9)]])])
               (VDict [(''k'', VInt 1)]) VNone [] initial_state)
          = Inr (VDict [(''subs'', VList [VDict [(''k'', VInt 9)]])])"
    by code_simp
  show "fst (convert_class 1 env1 child_converter (VDict []) (VDict [(''k'', VInt 3)]) VNone []
               \<lparr>counter = 1, ctx_slot = Some [(''k'', VInt 1)]\<rparr>)
          = Inr (VDict [(''k'', VInt 3)])"
    by code_simp
qed

theorem C4_context_precedence_witness:
  "map_of (dict_merge (dict_merge [(''k'', VInt 1)] [(''k'', VInt 2)]) []) ''k'' = Some (VInt 2)
   \<and> map_of (dict_merge (dict_merge [(''k'', VInt 1)] [(''k'', VInt 2)]) [(''k'', VInt 3)]) ''k''
       = Some (VInt 3)
   \<and> raw_value env0 (dict_converter_instance (VDict [(''k'', VInt 9)])) [(''k'', VInt 1)] VSentry
        (VStr ''k'') [] = Inr (VInt 9)
   \<and> raw_value env0 (dict_converter_instance (VDict [])) [(''k'', VInt 1)] VSentry
        (VStr ''k'') [] = Inr (VInt 1)"
proof -
  note t1 = C4_context_precedence
              [where built = "[(''k'', VInt 2)]" and new = "[]" and old = "[(''k'', VInt 1)]"
                 and k = "''k''"]
  note t2 = C4_context_precedence
              [where built = "[(''k'', VInt 2)]" and new = "[(''k'', VInt 3)]"
                 and old = "[(''k'', VInt 1)]" and k = "''k''"]
  note t3 = C4_context_precedence
              [where opts = "[]" and from_attr = "VStr ''k''" and E = env0
                 and self = "dict_converter_instance (VDict [(''k'', VInt 9)])"
                 and ctx = "[(''k'', VInt 1)]" and inst = VSentry]
  note t4 = C4_context_precedence
              [where opts = "[]" and from_attr = "VStr ''k''" and E = env0
                 and self = "dict_converter_instance (VDict [])"
                 and ctx = "[(''k'', VInt 1)]" and inst = VSentry]
  have a: "map_of (dict_merge (dict_merge [(''k'', VInt 1)] [(''k'', VInt 2)]) []) ''k''
             = Some (VInt 2)"
    using t1 by simp
  have b: "map_of (dict_merge (dict_merge [(''k'', VInt 1)] [(''k'', VInt 2)])
                     [(''k'', VInt 3)]) ''k'' = Some (VInt 3)"
    using t2 by simp
  have g9: "default_getter env0 (dict_converter_instance (VDict [(''k'', VInt 9)]))
              (source (dict_converter_instance (VDict [(''k'', VInt 9)]))) (VStr ''k'') VSentry
            = VInt 9"
    by code_simp
  have g0: "default_getter env0 (dict_converter_instance (VDict []))
              (source (dict_converter_instance (VDict []))) (VStr ''k'') VSentry = VSentry"
    by code_simp
  have p: "pyget env0 (VDict [(''k'', VInt 1)]) (VStr ''k'') VSentry = VInt 1"
    by code_simp
  have c: "raw_value env0 (dict_converter_instance (VDict [(''k'', VInt 9)])) [(''k'', VInt 1)]
             VSentry (VStr ''k'') [] = Inr (VInt 9)"
    using t3 g9 by (simp add: opt_get_Nil NOS_def)
  have d: "raw_value env0 (dict_converter_instance (VDict [])) [(''k'', VInt 1)] VSentry
             (VStr ''k'') [] = Inr (VInt 1)"
    using t4 g0 p by (simp add: opt_get_Nil NOS_def)
  from a b c d show ?thesis by blast
qed

theorem C4_built_context_beats_inherited_counterexample:
  "fst (convert_class 2 env1 parent_converter (VDict [(''subs'', VList [VDict []])])
          (VDict [(''k'', VInt 1)]) VNone [] initial_state)
     = Inr (VDict [(''subs'', VList [VDict [(''k'', VInt 2)]])])"
  by code_simp

section \<open>Normalizing canonical triples\<close>

lemma normalize_single_canonical:
  "is_str t \<Longrightarrow> truthy t \<Longrightarrow> is_str f \<Longrightarrow>
   normalize_single_copy_attr d (VTuple [t, f, VDict od]) s = (Inr (t, f, VDict od), s)"
  by (simp add: normalize_single_copy_attr_def)

lemma normalize_canonical:
  "list_all canonical ts \<Longrightarrow> normalize_copy_attrs d (map as_rule ts) s = (Inr ts, s)"
proof (induction ts)
  case Nil
  then show ?case by simp
next
  case (Cons t ts)
  obtain a b c where t: "t = (a, b, c)" by (cases t) auto
  from Cons.prems have "canonical t" and rest: "list_all canonical ts"
    by simp_all
  with t have c: "is_str a" "truthy a" "is_str b" "default_allowed c"
    by (simp_all add: canonical_def)
  from rest have ih: "normalize_copy_attrs d (map as_rule ts) s = (Inr ts, s)"
    by (rule Cons.IH)
  have single: "normalize_single_copy_attr d (as_rule t) s = (Inr (a, b, VDict c), s)"
    using c by (simp add: t as_rule_def normalize_single_canonical)
  show ?case
    using c(4) ih single by (simp add: t)
qed

lemma is_str_NOS: "is_str NOS"
  by (simp add: NOS_def)

lemma normalize_single_source_is_str:
  "normalize_single_copy_attr d r s = (Inr (t, f, od), st) \<Longrightarrow> is_str t \<Longrightarrow> is_str f"
  by (auto simp: normalize_single_copy_attr_def is_str_NOS Let_def
           split: if_splits option.splits prod.splits)

lemma normalize_output_canonical:
  "normalize_copy_attrs d rules s = (Inr ts, st) \<Longrightarrow>
   list_all (\<lambda>t. is_str (fst t) \<and> truthy (fst t)) ts \<Longrightarrow> list_all canonical ts"
proof (induction rules arbitrary: s ts)
  case Nil
  then show ?case by simp
next
  case (Cons r rules)
  obtain q s1 where single: "normalize_single_copy_attr d r s = (q, s1)"
    by (cases "normalize_single_copy_attr d r s") auto
  from Cons.prems(1) single obtain t f o3 where q: "q = Inr (t, f, o3)"
    by (cases q) (auto split: prod.splits)
  from Cons.prems(1) single q obtain od where o3: "o3 = VDict od"
    by (cases o3) auto
  from Cons.prems(1) single q o3 have ok: "default_allowed od"
    by (auto split: if_splits)
  from Cons.prems(1) single q o3 ok obtain ts' where
    rest: "normalize_copy_attrs d rules s1 = (Inr ts', st)" and ts: "ts = (t, f, od) # ts'"
    by (auto split: prod.splits sum.splits)
  from Cons.prems(2) ts have hd: "is_str t" "truthy t"
    and tl: "list_all (\<lambda>t. is_str (fst t) \<and> truthy (fst t)) ts'"
    by simp_all
  from single q o3 hd(1) have "is_str f"
    by (auto dest: normalize_single_source_is_str)
  with hd ok have "canonical (t, f, od)" by (simp add: canonical_def)
  moreover from rest tl have "list_all canonical ts'" by (rule Cons.IH)
  ultimately show ?case by (simp add: ts)
qed

text \<open>
  Claim C9 (amended).  For every list of triples whose destinations are non-empty
  strings, whose source paths are strings (\<open>NOS\<close> included) and whose defaults are
  allowed, normalization returns the same list and takes no fresh name.  So for every
  accepted input whose normalized destinations are all non-empty strings,
  \<open>normalize(normalize(rules)) == normalize(rules)\<close>.
\<close>

theorem C9_normalization_idempotent_on_nonempty_destinations:
  "(list_all canonical ts \<longrightarrow> normalize_copy_attrs d (map as_rule ts) s = (Inr ts, s))
   \<and> (normalize_copy_attrs d rules s = (Inr ts, st)
        \<and> list_all (\<lambda>t. is_str (fst t) \<and> truthy (fst t)) ts \<longrightarrow>
        normalize_copy_attrs d (map as_rule ts) st = (Inr ts, st))"
  by (auto intro: normalize_canonical dest: normalize_output_canonical)

theorem C9_normalization_idempotent_on_nonempty_destinations_witness:
  "normalize_copy_attrs VNone
      (map as_rule [(VStr ''a'', VStr ''b'', [(''default'', VInt 3)]), (VStr ''c'', NOS, [])])
      initial_state
     = (Inr [(VStr ''a'', VStr ''b'', [(''default'', VInt 3)]), (VStr ''c'', NOS, [])],
        initial_state)
   \<and> normalize_copy_attrs VNone [VStr ''a'', VFun 7, VTuple [VStr ''c'', NOS, VInt 3]]
        initial_state
     = (Inr [(VStr ''a'', VStr ''a'', []),
             (VStr ''-not-on-dest-1'', VStr ''self'', [(''converter'', VFun 7)]),
             (VStr ''c'', NOS, [(''default'', VInt 3)])], \<lparr>counter = 2, ctx_slot = None\<rparr>)
   \<and> normalize_copy_attrs VNone
        (map as_rule [(VStr ''a'', VStr ''a'', []),
             (VStr ''-not-on-dest-1'', VStr ''self'', [(''converter'', VFun 7)]),
             (VStr ''c'', NOS, [(''default'', VInt 3)])]) \<lparr>counter = 2, ctx_slot = None\<rparr>
     = (Inr [(VStr ''a'', VStr ''a'', []),
             (VStr ''-not-on-dest-1'', VStr ''self'', [(''converter'', VFun 7)]),
             (VStr ''c'', NOS, [(''default'', VInt 3)])], \<lparr>counter = 2, ctx_slot = None\<rparr>)"
proof -
  let ?ts1 = "[(VStr ''a'', VStr ''b'', [(''default'', VInt 3)]), (VStr ''c'', NOS, [])]"
  let ?ts2 = "[(VStr ''a'', VStr ''a'', []),
               (VStr ''-not-on-dest-1'', VStr ''self'', [(''converter'', VFun 7)]),
               (VStr ''c'', NOS, [(''default'', VInt 3)])]"
  have c1: "list_all canonical ?ts1" by code_simp
  have n2: "normalize_copy_attrs VNone [VStr ''a'', VFun 7, VTuple [VStr ''c'', NOS, VInt 3]]
              initial_state = (Inr ?ts2, \<lparr>counter = 2, ctx_slot = None\<rparr>)"
    by code_simp
  have s2: "list_all (\<lambda>t. is_str (fst t) \<and> truthy (fst t)) ?ts2" by (simp add: NOS_def)
  note t1 = C9_normalization_idempotent_on_nonempty_destinations
              [where ts = ?ts1 and d = VNone and s = initial_state]
  note t2 = C9_normalization_idempotent_on_nonempty_destinations
              [where ts = ?ts2 and d = VNone and s = initial_state
                 and rules = "[VStr ''a'', VFun 7, VTuple [VStr ''c'', NOS, VInt 3]]"
                 and st = "\<lparr>counter = 2, ctx_slot = None\<rparr>"]
  from t1 c1 have a: "normalize_copy_attrs VNone (map as_rule ?ts1) initial_state
                        = (Inr ?ts1, initial_state)"
    by blast
  from t2 n2 s2 have b: "normalize_copy_attrs VNone (map as_rule ?ts2)
                           \<lparr>counter = 2, ctx_slot = None\<rparr>
                         = (Inr ?ts2, \<lparr>counter = 2, ctx_slot = None\<rparr>)"
    by blast
  from a n2 b show ?thesis by blast
qed

theorem C9_empty_destination_renamed_counterexample:
  "normalize_copy_attrs VNone [VStr []] initial_state
     = (Inr [(VStr [], VStr [], [])], initial_state)
   \<and> normalize_copy_attrs VNone (map as_rule [(VStr [], VStr [], [])]) initial_state
     = (Inr [(VStr ''-not-on-dest-1'', VStr [], [])], \<lparr>counter = 2, ctx_slot = None\<rparr>)"
  by code_simp

section \<open>The normalizer against the reference table\<close>














































end
